theory Spec2Isabelle
  imports Main "HOL-Library.AList"
begin

section \<open>Strings\<close>

text \<open>
  Go's \<^verbatim>\<open>strings.Join(elems, sep)\<close>: the elements in order, with \<open>sep\<close> between each
  two neighbours.
\<close>

fun strings_Join :: "string list \<Rightarrow> string \<Rightarrow> string" where
  "strings_Join [] sep = []"
| "strings_Join [x] sep = x"
| "strings_Join (x # y # ys) sep = x @ sep @ strings_Join (y # ys) sep"

text \<open>Go's \<^verbatim>\<open>strings.HasPrefix(s, prefix)\<close> and \<^verbatim>\<open>strings.Contains(s, substr)\<close>.\<close>

fun strings_HasPrefix :: "string \<Rightarrow> string \<Rightarrow> bool" where
  "strings_HasPrefix s [] = True"
| "strings_HasPrefix [] (p # ps) = False"
| "strings_HasPrefix (c # s) (p # ps) = (c = p \<and> strings_HasPrefix s ps)"

fun strings_Contains :: "string \<Rightarrow> string \<Rightarrow> bool" where
  "strings_Contains [] substr = (substr = [])"
| "strings_Contains (c # s) substr =
     (strings_HasPrefix (c # s) substr \<or> strings_Contains s substr)"

section \<open>Spec translator: subnet identifiers\<close>

text \<open>
  \<^verbatim>\<open>
  func expandVpcZoneIdentifiers(list []interface{}) *string {
      strs := make([]string, len(list))
      for _, s := range list {
          strs = append(strs, s.(string))
      }
      return aws.String(strings.Join(strs, ","))
  }
  \<close>
  \<^verbatim>\<open>make([]string, n)\<close> is a slice of \<open>n\<close> empty strings; the loop appends to it.
\<close>

definition expandVpcZoneIdentifiers :: "string list \<Rightarrow> string" where
  "expandVpcZoneIdentifiers list =
     (let strs = replicate (length list) [] ;
          strs = foldl (\<lambda>strs s. strs @ [s]) strs list
      in strings_Join strs '','')"

section \<open>Errors\<close>

text \<open>
  The error of a provider call is an \<^verbatim>\<open>awserr.Error\<close> of the SDK, with its code and
  message (\<open>AWSError\<close>), or some other error (\<open>OtherError\<close>), for which the type
  assertion \<^verbatim>\<open>err.(awserr.Error)\<close> fails.
\<close>

datatype api_error =
    AWSError string string
  | OtherError string

text \<open>
  A Go \<^verbatim>\<open>error\<close> value of the program: the error of a provider call, the
  \<^verbatim>\<open>*resource.TimeoutError\<close> of the plugin SDK, or the result of
  \<^verbatim>\<open>fmt.Errorf(format, args...)\<close>. A returned \<^verbatim>\<open>nil\<close> is \<open>None :: error option\<close>.
\<close>

datatype error =
    ApiError api_error
  | TimeoutError
  | Errorf string "fmt_arg list"
and fmt_arg = ErrArg error | StrArg string | IntArg int

definition aws_StringValue :: "string option \<Rightarrow> string" where
  "aws_StringValue p = (case p of None \<Rightarrow> [] | Some s \<Rightarrow> s)"

definition aws_BoolValue :: "bool option \<Rightarrow> bool" where
  "aws_BoolValue p = (case p of None \<Rightarrow> False | Some b \<Rightarrow> b)"

section \<open>Data model\<close>

subsection \<open>The desired configuration\<close>

text \<open>
  The attributes of the resource schema that the modelled functions read, with the
  schema's names and types. A \<^verbatim>\<open>schema.Set\<close> of strings is the list that its
  \<^verbatim>\<open>List()\<close> returns; a nested block is a list of blocks, and where the code tests
  an element for \<^verbatim>\<open>nil\<close> the element is an \<open>option\<close>; the map of a block has every
  key of its schema. The keys \<^verbatim>\<open>id\<close>, \<^verbatim>\<open>name\<close> and \<^verbatim>\<open>version\<close> of a
  \<^verbatim>\<open>launch_template\<close> block are \<open>lt_id\<close>, \<open>lt_name\<close> and \<open>lt_version\<close>, and the key
  \<^verbatim>\<open>value\<close> of a \<^verbatim>\<open>tag\<close> block is \<open>val\<close>.
\<close>

record LaunchTemplateBlock =
  lt_id :: string
  lt_name :: string
  lt_version :: string

record InstancesDistributionBlock =
  on_demand_allocation_strategy :: string
  on_demand_base_capacity :: int
  on_demand_percentage_above_base_capacity :: int
  spot_allocation_strategy :: string
  spot_instance_pools :: int
  spot_max_price :: string

record LaunchTemplateSpecificationBlock =
  launch_template_id :: string
  launch_template_name :: string
  version :: string

record OverrideBlock =
  instance_type :: string
  weighted_capacity :: string

record MixedLaunchTemplateBlock =
  launch_template_specification :: "LaunchTemplateSpecificationBlock option list"
  override :: "OverrideBlock option list"

record MixedInstancesPolicyBlock =
  instances_distribution :: "InstancesDistributionBlock option list"
  launch_template :: "MixedLaunchTemplateBlock option list"

record LifecycleHookBlock =
  name :: string
  default_result :: string
  heartbeat_timeout :: int
  lifecycle_transition :: string
  notification_metadata :: string
  notification_target_arn :: string
  role_arn :: string

record TagBlock =
  key :: string
  val :: string
  propagate_at_launch :: bool

record Config =
  name :: string
  name_prefix :: string
  launch_configuration :: string
  launch_template :: "LaunchTemplateBlock list"
  mixed_instances_policy :: "MixedInstancesPolicyBlock option list"
  min_size :: int
  max_size :: int
  desired_capacity :: int
  max_instance_lifetime :: int
  default_cooldown :: int
  force_delete :: bool
  health_check_grace_period :: int
  health_check_type :: string
  availability_zones :: "string list"
  placement_group :: string
  load_balancers :: "string list"
  vpc_zone_identifier :: "string list"
  termination_policies :: "string list"
  protect_from_scale_in :: bool
  target_group_arns :: "string list"
  initial_lifecycle_hook :: "LifecycleHookBlock list"
  tag :: "TagBlock list"
  tags :: "(string \<times> string) list list"
  service_linked_role_arn :: string
  instance_refresh_token :: string

text \<open>
  \<^verbatim>\<open>*schema.ResourceData\<close>: the resource id, the attribute values before the change
  (the old side of \<^verbatim>\<open>d.GetChange\<close>) and the current ones (\<^verbatim>\<open>d.Get\<close>, written by
  \<^verbatim>\<open>d.Set\<close>). \<^verbatim>\<open>d.HasChange(k)\<close> compares the two; \<^verbatim>\<open>d.GetOk(k)\<close> is true when the
  current value is not the zero value of its type.
\<close>

record ResourceData =
  Id :: string
  prior :: Config
  attrs :: Config

definition GetOk_string :: "string \<Rightarrow> bool" where
  "GetOk_string v = (v \<noteq> [])"

definition GetOk_int :: "int \<Rightarrow> bool" where
  "GetOk_int v = (v \<noteq> 0)"

definition GetOk_list :: "'a list \<Rightarrow> bool" where
  "GetOk_list v = (v \<noteq> [])"

definition HasChange :: "(Config \<Rightarrow> 'a) \<Rightarrow> ResourceData \<Rightarrow> bool" where
  "HasChange k d = (k (prior d) \<noteq> k (attrs d))"

subsection \<open>Requests and observed state\<close>

text \<open>
  The SDK's structures, with the fields the modelled functions write or read. A pointer
  field is an \<open>option\<close> (\<open>None\<close> is \<^verbatim>\<open>nil\<close>), a slice a list (\<open>[]\<close> is \<^verbatim>\<open>nil\<close>).
\<close>

record LaunchTemplateSpecification =
  LaunchTemplateId :: "string option"
  LaunchTemplateName :: "string option"
  Version :: "string option"

record LaunchTemplateOverrides =
  InstanceType :: "string option"
  WeightedCapacity :: "string option"

record LaunchTemplate =
  LaunchTemplateSpecification :: LaunchTemplateSpecification
  Overrides :: "LaunchTemplateOverrides list"

record InstancesDistribution =
  OnDemandAllocationStrategy :: "string option"
  OnDemandBaseCapacity :: "int option"
  OnDemandPercentageAboveBaseCapacity :: "int option"
  SpotAllocationStrategy :: "string option"
  SpotInstancePools :: "int option"
  SpotMaxPrice :: "string option"

record MixedInstancesPolicy =
  InstancesDistribution :: "InstancesDistribution option"
  LaunchTemplate :: "LaunchTemplate option"

record Tag =
  Key :: "string option"
  Value :: "string option"
  PropagateAtLaunch :: "bool option"
  ResourceId :: "string option"
  ResourceType :: "string option"

record CreateAutoScalingGroupInput =
  AutoScalingGroupName :: "string option"
  MixedInstancesPolicy :: "MixedInstancesPolicy option"
  NewInstancesProtectedFromScaleIn :: "bool option"
  MinSize :: "int option"
  MaxSize :: "int option"
  DesiredCapacity :: "int option"
  LaunchConfigurationName :: "string option"
  LaunchTemplate :: "LaunchTemplateSpecification option"
  AvailabilityZones :: "string list"
  Tags :: "Tag list"
  DefaultCooldown :: "int option"
  HealthCheckType :: "string option"
  HealthCheckGracePeriod :: "int option"
  PlacementGroup :: "string option"
  LoadBalancerNames :: "string list"
  VPCZoneIdentifier :: "string option"
  TerminationPolicies :: "string list"
  TargetGroupARNs :: "string list"
  ServiceLinkedRoleARN :: "string option"
  MaxInstanceLifetime :: "int option"

record UpdateAutoScalingGroupInput =
  AutoScalingGroupName :: "string option"
  NewInstancesProtectedFromScaleIn :: "bool option"
  DefaultCooldown :: "int option"
  DesiredCapacity :: "int option"
  LaunchConfigurationName :: "string option"
  LaunchTemplate :: "LaunchTemplateSpecification option"
  MixedInstancesPolicy :: "MixedInstancesPolicy option"
  MinSize :: "int option"
  MaxSize :: "int option"
  MaxInstanceLifetime :: "int option"
  HealthCheckGracePeriod :: "int option"
  HealthCheckType :: "string option"
  VPCZoneIdentifier :: "string option"
  AvailabilityZones :: "string list"
  PlacementGroup :: "string option"
  TerminationPolicies :: "string list"
  ServiceLinkedRoleARN :: "string option"

record DeleteAutoScalingGroupInput =
  AutoScalingGroupName :: "string option"
  ForceDelete :: "bool option"

record PutLifecycleHookInput =
  AutoScalingGroupName :: "string option"
  LifecycleHookName :: "string option"
  DefaultResult :: "string option"
  HeartbeatTimeout :: "int option"
  LifecycleTransition :: "string option"
  NotificationMetadata :: "string option"
  NotificationTargetARN :: "string option"
  RoleARN :: "string option"

text \<open>
  \<^verbatim>\<open>autoscaling.Group\<close>, the observed state: the name, the instances (their ids), the
  desired capacity and the termination policies. The name and the desired capacity are
  dereferenced by the code without a \<^verbatim>\<open>nil\<close> check, so they are plain values here.
\<close>

record Group =
  AutoScalingGroupName :: string
  Instances :: "string list"
  DesiredCapacity :: int
  TerminationPolicies :: "string list"

text \<open>The zero value \<^verbatim>\<open>autoscaling.UpdateAutoScalingGroupInput{}\<close>.\<close>

definition UpdateAutoScalingGroupInput_zero :: UpdateAutoScalingGroupInput where
  "UpdateAutoScalingGroupInput_zero =
     \<lparr>UpdateAutoScalingGroupInput.AutoScalingGroupName = None,
      NewInstancesProtectedFromScaleIn = None,
      DefaultCooldown = None,
      DesiredCapacity = None,
      LaunchConfigurationName = None,
      LaunchTemplate = None,
      MixedInstancesPolicy = None,
      MinSize = None,
      MaxSize = None,
      MaxInstanceLifetime = None,
      HealthCheckGracePeriod = None,
      HealthCheckType = None,
      VPCZoneIdentifier = None,
      AvailabilityZones = [],
      PlacementGroup = None,
      TerminationPolicies = [],
      ServiceLinkedRoleARN = None\<rparr>"

subsection \<open>Examples\<close>

text \<open>A configuration and a resource, used in the examples.\<close>

definition exampleConfig :: Config where
  "exampleConfig =
     \<lparr>name = ''asg'', name_prefix = [], launch_configuration = ''lc-1'', launch_template = [],
      mixed_instances_policy = [], min_size = 1, max_size = 5, desired_capacity = 3,
      max_instance_lifetime = 0, default_cooldown = 0, force_delete = False,
      health_check_grace_period = 300, health_check_type = [],
      availability_zones = [''us-east-1a''], placement_group = [], load_balancers = [],
      vpc_zone_identifier = [], termination_policies = [], protect_from_scale_in = False,
      target_group_arns = [], initial_lifecycle_hook = [], tag = [], tags = [],
      service_linked_role_arn = [], instance_refresh_token = []\<rparr>"

definition exampleGroup :: "string list \<Rightarrow> Group" where
  "exampleGroup instances =
     \<lparr>Group.AutoScalingGroupName = ''asg'', Instances = instances,
      DesiredCapacity = int (length instances), TerminationPolicies = [''Default'']\<rparr>"

definition exampleMixedInstancesPolicy :: MixedInstancesPolicyBlock where
  "exampleMixedInstancesPolicy =
     \<lparr>instances_distribution = [],
      launch_template =
        [Some \<lparr>launch_template_specification =
                 [Some \<lparr>launch_template_id = ''lt-1'', launch_template_name = [],
                        version = ''$Default''\<rparr>],
               override = []\<rparr>]\<rparr>"


definition exampleData :: ResourceData where
  "exampleData = \<lparr>Id = ''asg'', prior = exampleConfig, attrs = exampleConfig\<rparr>"

section \<open>Functions declared elsewhere\<close>

text \<open>
  Functions that the modelled code calls and that are declared in other files of the
  provider, or in the plugin SDK, are parameters of the model:
  \<^item> \<open>expandStringList\<close>: \<^verbatim>\<open>expandStringList\<close>, from a list of configured strings to the
    list sent to the provider;
  \<^item> \<open>expandLaunchTemplateSpecification\<close>: the function of that name, from the
    \<^verbatim>\<open>launch_template\<close> blocks to its two results, a specification (possibly
    \<^verbatim>\<open>nil\<close>) and an error (possibly \<^verbatim>\<open>nil\<close>);
  \<^item> \<open>PrefixedUniqueId\<close>: \<^verbatim>\<open>resource.PrefixedUniqueId\<close>;
  \<^item> \<open>tagAutoscalingTags\<close>, \<open>tagsAutoscalingTags\<close>:
    \<^verbatim>\<open>keyvaluetags.AutoscalingKeyValueTags(v, id, type).IgnoreAws().AutoscalingTags()\<close> for
    the value of \<^verbatim>\<open>tag\<close> and of \<^verbatim>\<open>tags\<close>;
  \<^item> \<open>mergedAutoscalingTags\<close>: \<^verbatim>\<open>AutoscalingKeyValueTags(tag, ...).Merge(AutoscalingKeyValueTags(tags, ...)).AutoscalingTags()\<close>.
\<close>

record helpers =
  expandStringList :: "string list \<Rightarrow> string list"
  expandLaunchTemplateSpecification ::
    "LaunchTemplateBlock list \<Rightarrow> LaunchTemplateSpecification option \<times> error option"
  PrefixedUniqueId :: "string \<Rightarrow> string"
  tagAutoscalingTags :: "TagBlock list \<Rightarrow> string \<Rightarrow> Tag list"
  tagsAutoscalingTags :: "(string \<times> string) list list \<Rightarrow> string \<Rightarrow> Tag list"
  mergedAutoscalingTags ::
    "TagBlock list \<Rightarrow> (string \<times> string) list list \<Rightarrow> string \<Rightarrow> Tag list"

text \<open>
  Stand-ins for them, used in the examples; the one for the tags takes the itemized
  representation only.
\<close>

definition exampleTag :: "string \<Rightarrow> TagBlock \<Rightarrow> Tag" where
  "exampleTag resourceID b =
     \<lparr>Key = Some (key b), Value = Some (val b),
      PropagateAtLaunch = Some (propagate_at_launch b), ResourceId = Some resourceID,
      ResourceType = Some ''auto-scaling-group''\<rparr>"

definition exampleHelpers :: helpers where
  "exampleHelpers =
     \<lparr>expandStringList = (\<lambda>l. l),
      expandLaunchTemplateSpecification =
        (\<lambda>l. case l of
               [] \<Rightarrow> (None, None)
             | b # _ \<Rightarrow>
                 (Some \<lparr>LaunchTemplateId = Some (lt_id b), LaunchTemplateName = None,
                        Version = Some (lt_version b)\<rparr>, None)),
      PrefixedUniqueId = (\<lambda>prefix. prefix @ ''0001''),
      tagAutoscalingTags = (\<lambda>l i. map (exampleTag i) l),
      tagsAutoscalingTags = (\<lambda>l i. []),
      mergedAutoscalingTags = (\<lambda>l l' i. map (exampleTag i) l)\<rparr>"

text \<open>
  Modelled from the spec: \<^verbatim>\<open>isAWSErr\<close> and \<^verbatim>\<open>isResourceTimeoutError\<close> are declared
  in another file of the provider. The first recognises a provider error class (the
  "IAM-eventual-consistency validation error", the "group not found" response) by its
  code and a fragment of its message; the second recognises the timeout error with
  which a retry ends when its timeout elapses before an attempt has returned.
\<close>

definition isAWSErr :: "error option \<Rightarrow> string \<Rightarrow> string \<Rightarrow> bool" where
  "isAWSErr err code message =
     (case err of
        Some (ApiError (AWSError c m)) \<Rightarrow> c = code \<and> strings_Contains m message
      | _ \<Rightarrow> False)"

definition isResourceTimeoutError :: "error option \<Rightarrow> bool" where
  "isResourceTimeoutError err = (err = Some TimeoutError)"

section \<open>The provider API\<close>

text \<open>
  The Auto Scaling API is an external collaborator. A run of the program against it is
  modelled by a script: the responses the provider gives, in the order the program's
  calls arrive. Each call takes the next response of the script and is logged, with
  that response, in the trace. A function that makes calls returns \<open>None\<close> when the
  script ends before the function does (or hands it a response of the wrong shape):
  the script then does not describe a run of that function.
\<close>

text \<open>
  One entry of \<^verbatim>\<open>DescribeLoadBalancersOutput.LoadBalancers\<close> or of
  \<^verbatim>\<open>DescribeLoadBalancerTargetGroupsOutput.LoadBalancerTargetGroups\<close>: the name (or
  ARN) and the attachment state.
\<close>

record AttachmentState =
  Name :: "string option"
  State :: "string option"

text \<open>
  The calls the modelled functions make. \<open>LifecycleHookPutOp\<close> and
  \<open>AutoscalingUpdateTags\<close> stand for \<^verbatim>\<open>resourceAwsAutoscalingLifecycleHookPutOp\<close> and
  \<^verbatim>\<open>keyvaluetags.AutoscalingUpdateTags\<close>, which are declared in other files of the provider:
  each is taken as one step of the script that fails or succeeds.
\<close>

datatype call =
    CreateAutoScalingGroup CreateAutoScalingGroupInput
  | UpdateAutoScalingGroup UpdateAutoScalingGroupInput
  | DeleteAutoScalingGroup DeleteAutoScalingGroupInput
  | DescribeAutoScalingGroups "string list"
  | LifecycleHookPutOp PutLifecycleHookInput
  | AutoscalingUpdateTags string "Tag list" "Tag list"
  | DetachLoadBalancers string "string list"
  | AttachLoadBalancers string "string list"
  | DetachLoadBalancerTargetGroups string "string list"
  | AttachLoadBalancerTargetGroups string "string list"
  | DescribeLoadBalancers string "string option"
  | DescribeLoadBalancerTargetGroups string "string option"

datatype response =
    Failed api_error
  | Succeeded
  | Groups "Group list"
  | Page "AttachmentState list" "string option"

record world =
  script :: "response list"
  trace :: "(call \<times> response) list"

definition api :: "call \<Rightarrow> world \<Rightarrow> (response \<times> world) option" where
  "api c w =
     (case script w of
        [] \<Rightarrow> None
      | r # rs \<Rightarrow> Some (r, \<lparr>script = rs, trace = trace w @ [(c, r)]\<rparr>))"

section \<open>Convergence waiter: attachment state\<close>

text \<open>
  The four functions \<^verbatim>\<open>waitUntilAutoscalingGroupLoadBalancersAdded\<close>,
  \<^verbatim>\<open>...LoadBalancersRemoved\<close>, \<^verbatim>\<open>...LoadBalancerTargetGroupsAdded\<close> and
  \<^verbatim>\<open>...LoadBalancerTargetGroupsRemoved\<close> have one body; they differ in the describe
  call they poll and in the state string they look for.
\<close>

datatype attachment =
    LoadBalancersAdded
  | LoadBalancersRemoved
  | LoadBalancerTargetGroupsAdded
  | LoadBalancerTargetGroupsRemoved

fun describeCall :: "attachment \<Rightarrow> string \<Rightarrow> string option \<Rightarrow> call" where
  "describeCall LoadBalancersAdded asgName token = DescribeLoadBalancers asgName token"
| "describeCall LoadBalancersRemoved asgName token = DescribeLoadBalancers asgName token"
| "describeCall LoadBalancerTargetGroupsAdded asgName token =
     DescribeLoadBalancerTargetGroups asgName token"
| "describeCall LoadBalancerTargetGroupsRemoved asgName token =
     DescribeLoadBalancerTargetGroups asgName token"

fun transitionalState :: "attachment \<Rightarrow> string" where
  "transitionalState LoadBalancersAdded = ''Adding''"
| "transitionalState LoadBalancersRemoved = ''Removing''"
| "transitionalState LoadBalancerTargetGroupsAdded = ''Adding''"
| "transitionalState LoadBalancerTargetGroupsRemoved = ''Removing''"

text \<open>
  \<^verbatim>\<open>
  for {
      output, err := conn.DescribeLoadBalancers(input)
      if err != nil { return err }
      for _, tg := range output.LoadBalancers {
          if aws.StringValue(tg.State) == "Adding" { lbAdding = true; break }
      }
      if lbAdding { lbAdding = false; input.NextToken = nil; continue }
      if aws.StringValue(output.NextToken) == "" { break }
      input.NextToken = output.NextToken
  }
  return nil
  \<close>
  The loop has no timeout; in the model it ends with the script at the latest.
\<close>

definition inTransition :: "attachment \<Rightarrow> AttachmentState list \<Rightarrow> bool" where
  "inTransition k items = list_ex (\<lambda>tg. aws_StringValue (State tg) = transitionalState k) items"

function waitUntilAutoscalingGroup ::
  "attachment \<Rightarrow> string \<Rightarrow> string option \<Rightarrow> world \<Rightarrow> (error option \<times> world) option" where
  "waitUntilAutoscalingGroup k asgName nextToken w =
     (case api (describeCall k asgName nextToken) w of
        None \<Rightarrow> None
      | Some (Failed err, w') \<Rightarrow> Some (Some (ApiError err), w')
      | Some (Page items token, w') \<Rightarrow>
          (if inTransition k items then waitUntilAutoscalingGroup k asgName None w'
           else if aws_StringValue token = [] then Some (None, w')
           else waitUntilAutoscalingGroup k asgName token w')
      | Some (_, w') \<Rightarrow> None)"
  by pat_completeness auto
termination
  by (relation "measure (\<lambda>(k, asgName, nextToken, w). length (script w))")
     (auto simp: api_def split: list.splits)

definition waitUntilAutoscalingGroupLoadBalancersAdded ::
  "string \<Rightarrow> world \<Rightarrow> (error option \<times> world) option" where
  "waitUntilAutoscalingGroupLoadBalancersAdded asgName w =
     waitUntilAutoscalingGroup LoadBalancersAdded asgName None w"

definition waitUntilAutoscalingGroupLoadBalancersRemoved ::
  "string \<Rightarrow> world \<Rightarrow> (error option \<times> world) option" where
  "waitUntilAutoscalingGroupLoadBalancersRemoved asgName w =
     waitUntilAutoscalingGroup LoadBalancersRemoved asgName None w"

definition waitUntilAutoscalingGroupLoadBalancerTargetGroupsAdded ::
  "string \<Rightarrow> world \<Rightarrow> (error option \<times> world) option" where
  "waitUntilAutoscalingGroupLoadBalancerTargetGroupsAdded asgName w =
     waitUntilAutoscalingGroup LoadBalancerTargetGroupsAdded asgName None w"

definition waitUntilAutoscalingGroupLoadBalancerTargetGroupsRemoved ::
  "string \<Rightarrow> world \<Rightarrow> (error option \<times> world) option" where
  "waitUntilAutoscalingGroupLoadBalancerTargetGroupsRemoved asgName w =
     waitUntilAutoscalingGroup LoadBalancerTargetGroupsRemoved asgName None w"

text \<open>The four functions, selected by the kind of wait.\<close>

fun waitUntilAttachment :: "attachment \<Rightarrow> string \<Rightarrow> world \<Rightarrow> (error option \<times> world) option" where
  "waitUntilAttachment LoadBalancersAdded = waitUntilAutoscalingGroupLoadBalancersAdded"
| "waitUntilAttachment LoadBalancersRemoved = waitUntilAutoscalingGroupLoadBalancersRemoved"
| "waitUntilAttachment LoadBalancerTargetGroupsAdded =
     waitUntilAutoscalingGroupLoadBalancerTargetGroupsAdded"
| "waitUntilAttachment LoadBalancerTargetGroupsRemoved =
     waitUntilAutoscalingGroupLoadBalancerTargetGroupsRemoved"



section \<open>Incremental set reconciler: attachments\<close>

text \<open>
  The update of \<^verbatim>\<open>load_balancers\<close> and of \<^verbatim>\<open>target_group_arns\<close> in
  \<^verbatim>\<open>resourceAwsAutoscalingGroupUpdate\<close>. The two blocks have one shape, as have the
  removal and the addition inside each:
  \<^verbatim>\<open>
  remove := expandStringList(os.Difference(ns).List())
  add := expandStringList(ns.Difference(os).List())
  if len(remove) > 0 {
      var batches [][]*string
      batchSize := 10
      for batchSize < len(remove) {
          remove, batches = remove[batchSize:], append(batches, remove[0:batchSize:batchSize])
      }
      batches = append(batches, remove)
      for _, batch := range batches {
          _, err := conn.DetachLoadBalancers(...batch...)
          if err != nil { return fmt.Errorf(...) }
          if err := waitUntilAutoscalingGroupLoadBalancersRemoved(conn, d.Id()); err != nil {
              return fmt.Errorf(...)
          }
      }
  }
  if len(add) > 0 { ... AttachLoadBalancers ... waitUntilAutoscalingGroupLoadBalancersAdded ... }
  \<close>
\<close>

definition Difference :: "string list \<Rightarrow> string list \<Rightarrow> string list" where
  "Difference s other = filter (\<lambda>x. x \<notin> set other) s"

definition batchSize :: nat where
  "batchSize = 10"

function splitBatches :: "string list \<Rightarrow> string list list \<Rightarrow> string list list" where
  "splitBatches remove batches =
     (if batchSize < length remove
      then splitBatches (drop batchSize remove) (batches @ [take batchSize remove])
      else batches @ [remove])"
  by pat_completeness auto
termination
  by (relation "measure (\<lambda>(remove, batches). length remove)") (auto simp: batchSize_def)

declare splitBatches.simps [simp del]

fun attachmentCall :: "attachment \<Rightarrow> string \<Rightarrow> string list \<Rightarrow> call" where
  "attachmentCall LoadBalancersRemoved asgName batch = DetachLoadBalancers asgName batch"
| "attachmentCall LoadBalancersAdded asgName batch = AttachLoadBalancers asgName batch"
| "attachmentCall LoadBalancerTargetGroupsRemoved asgName batch =
     DetachLoadBalancerTargetGroups asgName batch"
| "attachmentCall LoadBalancerTargetGroupsAdded asgName batch =
     AttachLoadBalancerTargetGroups asgName batch"

fun callErrorFormat :: "attachment \<Rightarrow> string" where
  "callErrorFormat LoadBalancersRemoved =
     ''error detaching AutoScaling Group (%s) Load Balancers: %s''"
| "callErrorFormat LoadBalancersAdded =
     ''error attaching AutoScaling Group (%s) Load Balancers: %s''"
| "callErrorFormat LoadBalancerTargetGroupsRemoved =
     ''Error updating Load Balancers Target Groups for AutoScaling Group (%s), error: %s''"
| "callErrorFormat LoadBalancerTargetGroupsAdded =
     ''Error updating Load Balancers Target Groups for AutoScaling Group (%s), error: %s''"

fun waitErrorFormat :: "attachment \<Rightarrow> string" where
  "waitErrorFormat LoadBalancersRemoved =
     ''error describing AutoScaling Group (%s) Load Balancers being removed: %s''"
| "waitErrorFormat LoadBalancersAdded =
     ''error describing AutoScaling Group (%s) Load Balancers being added: %s''"
| "waitErrorFormat LoadBalancerTargetGroupsRemoved =
     ''error describing AutoScaling Group (%s) Load Balancer Target Groups being removed: %s''"
| "waitErrorFormat LoadBalancerTargetGroupsAdded =
     ''error describing AutoScaling Group (%s) Load Balancer Target Groups being added: %s''"

fun applyBatches ::
  "attachment \<Rightarrow> string \<Rightarrow> string list list \<Rightarrow> world \<Rightarrow> (error option \<times> world) option" where
  "applyBatches k asgName [] w = Some (None, w)"
| "applyBatches k asgName (batch # batches) w =
     (case api (attachmentCall k asgName batch) w of
        None \<Rightarrow> None
      | Some (Failed err, w1) \<Rightarrow>
          Some (Some (Errorf (callErrorFormat k) [StrArg asgName, ErrArg (ApiError err)]), w1)
      | Some (Succeeded, w1) \<Rightarrow>
          (case waitUntilAttachment k asgName w1 of
             None \<Rightarrow> None
           | Some (Some err, w2) \<Rightarrow>
               Some (Some (Errorf (waitErrorFormat k) [StrArg asgName, ErrArg err]), w2)
           | Some (None, w2) \<Rightarrow> applyBatches k asgName batches w2)
      | Some (_, w1) \<Rightarrow> None)"

definition updateAttachments ::
  "attachment \<Rightarrow> attachment \<Rightarrow> helpers \<Rightarrow> string \<Rightarrow> string list \<Rightarrow> string list \<Rightarrow> world
   \<Rightarrow> (error option \<times> world) option" where
  "updateAttachments removed added h asgName os ns w =
     (let remove = expandStringList h (Difference os ns);
          add = expandStringList h (Difference ns os)
      in case (if length remove > 0
               then applyBatches removed asgName (splitBatches remove []) w
               else Some (None, w)) of
           None \<Rightarrow> None
         | Some (Some err, w1) \<Rightarrow> Some (Some err, w1)
         | Some (None, w1) \<Rightarrow>
             (if length add > 0
              then applyBatches added asgName (splitBatches add []) w1
              else Some (None, w1)))"




section \<open>Retrying\<close>

text \<open>
  \<^verbatim>\<open>resource.Retry(timeout, f)\<close> of the plugin SDK calls \<open>f\<close> again while it returns a
  retryable error, and returns \<^verbatim>\<open>nil\<close> or the non-retryable error of \<open>f\<close>. When the
  timeout elapses, it returns the error of the last attempt (a retryable one); it
  returns a timeout error only when the timeout elapses before any attempt has
  returned. The timeout is a bound in real time: the model takes instead the number of
  attempts that return within it. \<open>f\<close> is a closure over the variables of its function,
  so it transforms a state.
\<close>

datatype RetryError = RetryableError error | NonRetryableError error

fun Retry ::
  "nat \<Rightarrow> ('s \<Rightarrow> (RetryError option \<times> 's) option) \<Rightarrow> 's \<Rightarrow> (error option \<times> 's) option" where
  "Retry 0 f s = Some (Some TimeoutError, s)"
| "Retry (Suc n) f s =
     (case f s of
        None \<Rightarrow> None
      | Some (None, s') \<Rightarrow> Some (None, s')
      | Some (Some (NonRetryableError err), s') \<Rightarrow> Some (Some err, s')
      | Some (Some (RetryableError err), s') \<Rightarrow>
          (if n = 0 then Some (Some err, s') else Retry n f s'))"

section \<open>State reader: finding the group\<close>

text \<open>
  \<^verbatim>\<open>
  describeGroups, err := conn.DescribeAutoScalingGroups(&describeOpts)
  if err != nil {
      autoscalingerr, ok := err.(awserr.Error)
      if ok && autoscalingerr.Code() == "InvalidGroup.NotFound" { return nil, nil }
      return nil, fmt.Errorf("Error retrieving AutoScaling groups: %s", err)
  }
  for idx, asc := range describeGroups.AutoScalingGroups {
      if *asc.AutoScalingGroupName == asgName { return describeGroups.AutoScalingGroups[idx], nil }
  }
  return nil, nil
  \<close>
  The result \<^verbatim>\<open>(group, err)\<close> is \<open>Inl err\<close> or \<open>Inr group\<close>, with \<open>Inr None\<close> for
  \<^verbatim>\<open>(nil, nil)\<close>.
\<close>

definition getAwsAutoscalingGroup ::
  "string \<Rightarrow> world \<Rightarrow> ((error + Group option) \<times> world) option" where
  "getAwsAutoscalingGroup asgName w =
     (case api (DescribeAutoScalingGroups [asgName]) w of
        None \<Rightarrow> None
      | Some (Failed err, w') \<Rightarrow>
          (case err of
             AWSError code message \<Rightarrow>
               if code = ''InvalidGroup.NotFound'' then Some (Inr None, w')
               else Some (Inl (Errorf ''Error retrieving AutoScaling groups: %s''
                      [ErrArg (ApiError err)]), w')
           | _ \<Rightarrow> Some (Inl (Errorf ''Error retrieving AutoScaling groups: %s''
                      [ErrArg (ApiError err)]), w'))
      | Some (Groups describeGroups, w') \<Rightarrow>
          Some (Inr (find (\<lambda>asc. Group.AutoScalingGroupName asc = asgName) describeGroups), w')
      | Some (_, w') \<Rightarrow> None)"

text \<open>
  Modelled from the spec: \<^verbatim>\<open>flattenStringList\<close> is declared in another file of
  the provider. The reader "reports the observed list verbatim": the result is the list of the
  strings.
\<close>

definition flattenStringList :: "string list \<Rightarrow> string list" where
  "flattenStringList list = list"

text \<open>
  \<^verbatim>\<open>resourceAwsAutoscalingGroupRead\<close>. The function sets every attribute from the observed
  group; the model has those whose source is a field of \<open>Group\<close>: the desired capacity,
  the name and the termination policies.
  \<^verbatim>\<open>
  _, ok := d.GetOk("termination_policies")
  if !ok && len(g.TerminationPolicies) == 1 && aws.StringValue(g.TerminationPolicies[0]) == "Default" {
      d.Set("termination_policies", []interface{}{})
  } else {
      d.Set("termination_policies", flattenStringList(g.TerminationPolicies))
  }
  \<close>
\<close>

definition resourceAwsAutoscalingGroupRead ::
  "ResourceData \<times> world \<Rightarrow> (error option \<times> ResourceData \<times> world) option" where
  "resourceAwsAutoscalingGroupRead = (\<lambda>(d, w).
     case getAwsAutoscalingGroup (Id d) w of
       None \<Rightarrow> None
     | Some (Inl err, w') \<Rightarrow> Some (Some err, d, w')
     | Some (Inr None, w') \<Rightarrow> Some (None, d\<lparr>Id := []\<rparr>, w')
     | Some (Inr (Some g), w') \<Rightarrow>
         let d = d\<lparr>attrs := (attrs d)\<lparr>desired_capacity := Group.DesiredCapacity g\<rparr>\<rparr>;
             d = d\<lparr>attrs := (attrs d)\<lparr>name := Group.AutoScalingGroupName g\<rparr>\<rparr>;
             ok = GetOk_list (termination_policies (attrs d));
             d = (if \<not> ok \<and> length (Group.TerminationPolicies g) = 1
                     \<and> hd (Group.TerminationPolicies g) = ''Default''
                  then d\<lparr>attrs := (attrs d)\<lparr>termination_policies := []\<rparr>\<rparr>
                  else d\<lparr>attrs := (attrs d)\<lparr>termination_policies :=
                         flattenStringList (Group.TerminationPolicies g)\<rparr>\<rparr>)
         in Some (None, d, w'))"

section \<open>Spec translator: requests\<close>

text \<open>
  The pattern \<^verbatim>\<open>if v, ok := m[k]; ok && v.(string) != "" { x = aws.String(v.(string)) }\<close>:
  the field stays \<^verbatim>\<open>nil\<close> for the empty string.
\<close>

definition nonEmpty :: "string \<Rightarrow> string option" where
  "nonEmpty v = (if v \<noteq> [] then Some v else None)"

text \<open>
  The \<^verbatim>\<open>expandAutoScaling...\<close> functions, from the blocks of \<^verbatim>\<open>mixed_instances_policy\<close>
  to the SDK's structures. Each returns \<^verbatim>\<open>nil\<close> (or, for the specification, the empty
  structure) when the list is empty or its first element is \<^verbatim>\<open>nil\<close>.
\<close>

definition expandAutoScalingInstancesDistribution ::
  "InstancesDistributionBlock option list \<Rightarrow> InstancesDistribution option" where
  "expandAutoScalingInstancesDistribution l =
     (case l of
        [] \<Rightarrow> None
      | None # _ \<Rightarrow> None
      | Some m # _ \<Rightarrow>
          Some \<lparr>OnDemandAllocationStrategy = nonEmpty (on_demand_allocation_strategy m),
                OnDemandBaseCapacity = Some (on_demand_base_capacity m),
                OnDemandPercentageAboveBaseCapacity =
                  Some (on_demand_percentage_above_base_capacity m),
                SpotAllocationStrategy = nonEmpty (spot_allocation_strategy m),
                SpotInstancePools =
                  (if spot_instance_pools m \<noteq> 0 then Some (spot_instance_pools m) else None),
                SpotMaxPrice = Some (spot_max_price m)\<rparr>)"

definition expandAutoScalingLaunchTemplateSpecification ::
  "LaunchTemplateSpecificationBlock option list \<Rightarrow> LaunchTemplateSpecification" where
  "expandAutoScalingLaunchTemplateSpecification l =
     (case l of
        [] \<Rightarrow> \<lparr>LaunchTemplateId = None, LaunchTemplateName = None, Version = None\<rparr>
      | None # _ \<Rightarrow> \<lparr>LaunchTemplateId = None, LaunchTemplateName = None, Version = None\<rparr>
      | Some m # _ \<Rightarrow>
          \<lparr>LaunchTemplateId = nonEmpty (launch_template_id m),
           LaunchTemplateName =
             (if launch_template_name m \<noteq> [] \<and> nonEmpty (launch_template_id m) = None
              then Some (launch_template_name m) else None),
           Version = nonEmpty (version m)\<rparr>)"

definition expandAutoScalingLaunchTemplateOverride ::
  "OverrideBlock \<Rightarrow> LaunchTemplateOverrides" where
  "expandAutoScalingLaunchTemplateOverride m =
     \<lparr>InstanceType = nonEmpty (instance_type m),
      WeightedCapacity = nonEmpty (weighted_capacity m)\<rparr>"

definition expandAutoScalingLaunchTemplateOverrides ::
  "OverrideBlock option list \<Rightarrow> LaunchTemplateOverrides list" where
  "expandAutoScalingLaunchTemplateOverrides l =
     map (\<lambda>m. case m of
                None \<Rightarrow> \<lparr>InstanceType = None, WeightedCapacity = None\<rparr>
              | Some m \<Rightarrow> expandAutoScalingLaunchTemplateOverride m) l"

definition expandAutoScalingLaunchTemplate ::
  "MixedLaunchTemplateBlock option list \<Rightarrow> LaunchTemplate option" where
  "expandAutoScalingLaunchTemplate l =
     (case l of
        [] \<Rightarrow> None
      | None # _ \<Rightarrow> None
      | Some m # _ \<Rightarrow>
          Some \<lparr>LaunchTemplateSpecification =
                  expandAutoScalingLaunchTemplateSpecification (launch_template_specification m),
                Overrides = expandAutoScalingLaunchTemplateOverrides (override m)\<rparr>)"

definition expandAutoScalingMixedInstancesPolicy ::
  "MixedInstancesPolicyBlock option list \<Rightarrow> MixedInstancesPolicy option" where
  "expandAutoScalingMixedInstancesPolicy l =
     (case l of
        [] \<Rightarrow> None
      | None # _ \<Rightarrow> None
      | Some m # _ \<Rightarrow>
          Some \<lparr>InstancesDistribution =
                  expandAutoScalingInstancesDistribution (instances_distribution m),
                LaunchTemplate =
                  expandAutoScalingLaunchTemplate (MixedInstancesPolicyBlock.launch_template m)\<rparr>)"

text \<open>\<^verbatim>\<open>generatePutLifecycleHookInputs\<close>: one input for each configured hook.\<close>

definition generatePutLifecycleHookInputs ::
  "string \<Rightarrow> LifecycleHookBlock list \<Rightarrow> PutLifecycleHookInput list" where
  "generatePutLifecycleHookInputs asgName cfgs =
     map (\<lambda>cfg.
            \<lparr>PutLifecycleHookInput.AutoScalingGroupName = Some asgName,
             LifecycleHookName = Some (LifecycleHookBlock.name cfg),
             DefaultResult = nonEmpty (default_result cfg),
             HeartbeatTimeout =
               (if heartbeat_timeout cfg > 0 then Some (heartbeat_timeout cfg) else None),
             LifecycleTransition = nonEmpty (lifecycle_transition cfg),
             NotificationMetadata = nonEmpty (notification_metadata cfg),
             NotificationTargetARN = nonEmpty (notification_target_arn cfg),
             RoleARN = nonEmpty (role_arn cfg)\<rparr>) cfgs"

text \<open>
  The requests that \<^verbatim>\<open>resourceAwsAutoscalingGroupCreate\<close> builds before its first call.
  \<open>createName\<close> is \<^verbatim>\<open>asgName\<close>; \<open>twoPhases\<close> is the variable of that name;
  \<open>createUpdateOpts\<close> is \<^verbatim>\<open>updateOpts\<close>. \<open>createOptsWith\<close> gives each field of
  \<^verbatim>\<open>createOpts\<close> the value that the assignments of the function leave in it, for a
  given launch template; \<open>createOpts\<close> is the check of the launch sources and the
  expansion of the launch template, which can both fail.
  \<^verbatim>\<open>
  if twoPhases {
      createOpts.MinSize = aws.Int64(int64(0))
      createOpts.MaxSize = aws.Int64(int64(0))
      updateOpts.MinSize = minSize
      updateOpts.MaxSize = maxSize
      if v, ok := d.GetOk("desired_capacity"); ok {
          updateOpts.DesiredCapacity = aws.Int64(int64(v.(int)))
      }
  } else {
      createOpts.MinSize = minSize
      createOpts.MaxSize = maxSize
      if v, ok := d.GetOk("desired_capacity"); ok {
          createOpts.DesiredCapacity = aws.Int64(int64(v.(int)))
      }
  }
  launchConfigurationValue, launchConfigurationOk := d.GetOk("launch_configuration")
  launchTemplateValue, launchTemplateOk := d.GetOk("launch_template")
  if createOpts.MixedInstancesPolicy == nil && !launchConfigurationOk && !launchTemplateOk {
      return fmt.Errorf("One of `launch_configuration`, ... must be set for an autoscaling group")
  }
  if launchConfigurationOk { createOpts.LaunchConfigurationName = ... }
  if launchTemplateOk {
      createOpts.LaunchTemplate, err = expandLaunchTemplateSpecification(...)
      if err != nil { return err }
  }
  \<close>
\<close>

definition createName :: "helpers \<Rightarrow> ResourceData \<Rightarrow> string" where
  "createName h d =
     (if GetOk_string (Config.name (attrs d)) then Config.name (attrs d)
      else if GetOk_string (name_prefix (attrs d))
      then PrefixedUniqueId h (name_prefix (attrs d))
      else PrefixedUniqueId h ''tf-asg-'')"

definition twoPhases :: "ResourceData \<Rightarrow> bool" where
  "twoPhases d = (length (initial_lifecycle_hook (attrs d)) > 0)"

definition createUpdateOpts :: "helpers \<Rightarrow> ResourceData \<Rightarrow> UpdateAutoScalingGroupInput" where
  "createUpdateOpts h d =
     UpdateAutoScalingGroupInput_zero
       \<lparr>UpdateAutoScalingGroupInput.AutoScalingGroupName := Some (createName h d),
        UpdateAutoScalingGroupInput.MinSize :=
          (if twoPhases d then Some (min_size (attrs d)) else None),
        UpdateAutoScalingGroupInput.MaxSize :=
          (if twoPhases d then Some (max_size (attrs d)) else None),
        UpdateAutoScalingGroupInput.DesiredCapacity :=
          (if twoPhases d \<and> GetOk_int (desired_capacity (attrs d))
           then Some (desired_capacity (attrs d)) else None)\<rparr>"

definition createOptsWith ::
  "helpers \<Rightarrow> ResourceData \<Rightarrow> LaunchTemplateSpecification option \<Rightarrow> CreateAutoScalingGroupInput" where
  "createOptsWith h d launchTemplate =
     (let c = attrs d;
          resourceID = createName h d
      in \<lparr>CreateAutoScalingGroupInput.AutoScalingGroupName = Some (createName h d),
          MixedInstancesPolicy =
            expandAutoScalingMixedInstancesPolicy (mixed_instances_policy c),
          NewInstancesProtectedFromScaleIn = Some (protect_from_scale_in c),
          MinSize = (if twoPhases d then Some 0 else Some (min_size c)),
          MaxSize = (if twoPhases d then Some 0 else Some (max_size c)),
          DesiredCapacity =
            (if \<not> twoPhases d \<and> GetOk_int (desired_capacity c)
             then Some (desired_capacity c) else None),
          LaunchConfigurationName =
            (if GetOk_string (launch_configuration c)
             then Some (launch_configuration c) else None),
          LaunchTemplate = launchTemplate,
          AvailabilityZones =
            (if GetOk_list (availability_zones c)
             then expandStringList h (availability_zones c) else []),
          Tags =
            (if GetOk_list (tags c) then tagsAutoscalingTags h (tags c) resourceID
             else if GetOk_list (tag c) then tagAutoscalingTags h (tag c) resourceID
             else []),
          DefaultCooldown =
            (if GetOk_int (default_cooldown c) then Some (default_cooldown c) else None),
          HealthCheckType =
            (if GetOk_string (health_check_type c) then Some (health_check_type c) else None),
          HealthCheckGracePeriod =
            (if GetOk_int (health_check_grace_period c)
             then Some (health_check_grace_period c) else None),
          PlacementGroup =
            (if GetOk_string (placement_group c) then Some (placement_group c) else None),
          LoadBalancerNames =
            (if GetOk_list (load_balancers c)
             then expandStringList h (load_balancers c) else []),
          VPCZoneIdentifier =
            (if GetOk_list (vpc_zone_identifier c)
             then Some (expandVpcZoneIdentifiers (vpc_zone_identifier c)) else None),
          TerminationPolicies =
            (if GetOk_list (termination_policies c)
             then expandStringList h (termination_policies c) else []),
          TargetGroupARNs =
            (if GetOk_list (target_group_arns c)
             then expandStringList h (target_group_arns c) else []),
          ServiceLinkedRoleARN =
            (if GetOk_string (service_linked_role_arn c)
             then Some (service_linked_role_arn c) else None),
          MaxInstanceLifetime =
            (if GetOk_int (max_instance_lifetime c)
             then Some (max_instance_lifetime c) else None)\<rparr>)"

definition noLaunchSourceError :: error where
  "noLaunchSourceError =
     Errorf ''One of `launch_configuration`, `launch_template`, or `mixed_instances_policy` must be set for an autoscaling group'' []"

definition createOpts :: "helpers \<Rightarrow> ResourceData \<Rightarrow> error + CreateAutoScalingGroupInput" where
  "createOpts h d =
     (let c = attrs d;
          mixedInstancesPolicy = expandAutoScalingMixedInstancesPolicy (mixed_instances_policy c);
          launchConfigurationOk = GetOk_string (launch_configuration c);
          launchTemplateOk = GetOk_list (Config.launch_template c)
      in if mixedInstancesPolicy = None \<and> \<not> launchConfigurationOk \<and> \<not> launchTemplateOk
         then Inl noLaunchSourceError
         else
           case (if launchTemplateOk
                 then expandLaunchTemplateSpecification h (Config.launch_template c)
                 else (None, None)) of
             (launchTemplate, Some err) \<Rightarrow> Inl err
           | (launchTemplate, None) \<Rightarrow> Inr (createOptsWith h d launchTemplate))"

section \<open>Lifecycle orchestrator: create\<close>

text \<open>
  \<^verbatim>\<open>resourceAwsAutoscalingGroupCreate\<close> up to the wait for capacity
  (\<^verbatim>\<open>waitForASGCapacity\<close>, declared in another file): the requests, the create
  call with its retry for IAM eventual consistency (\<open>createAttempt\<close>, \<open>createGroup\<close>; the
  number is that of the attempts that return within the minute of the retry), and for a
  two-phase creation the registration of the hooks and the update to the real capacity
  (\<open>putLifecycleHooks\<close>, \<open>registerHooks\<close>). A result without error says that the
  function has reached the wait for capacity.
\<close>

definition createAttempt ::
  "CreateAutoScalingGroupInput \<Rightarrow> ResourceData \<times> world
   \<Rightarrow> (RetryError option \<times> ResourceData \<times> world) option" where
  "createAttempt opts = (\<lambda>(d, w).
     case api (CreateAutoScalingGroup opts) w of
       None \<Rightarrow> None
     | Some (Failed err, w') \<Rightarrow>
         if isAWSErr (Some (ApiError err)) ''ValidationError'' ''Invalid IAM Instance Profile''
         then Some (Some (RetryableError (ApiError err)), d, w')
         else Some (Some (NonRetryableError (ApiError err)), d, w')
     | Some (Succeeded, w') \<Rightarrow> Some (None, d, w')
     | Some (_, w') \<Rightarrow> None)"

fun putLifecycleHooks ::
  "PutLifecycleHookInput list \<Rightarrow> world \<Rightarrow> (error option \<times> world) option" where
  "putLifecycleHooks [] w = Some (None, w)"
| "putLifecycleHooks (hook # hooks) w =
     (case api (LifecycleHookPutOp hook) w of
        None \<Rightarrow> None
      | Some (Failed err, w') \<Rightarrow>
          Some (Some (Errorf ''Error creating initial lifecycle hooks: %s''
                 [ErrArg (ApiError err)]), w')
      | Some (Succeeded, w') \<Rightarrow> putLifecycleHooks hooks w'
      | Some (_, w') \<Rightarrow> None)"

definition createGroup ::
  "nat \<Rightarrow> CreateAutoScalingGroupInput \<Rightarrow> ResourceData \<times> world
   \<Rightarrow> (error option \<times> ResourceData \<times> world) option" where
  "createGroup timeout opts s =
     (case Retry timeout (createAttempt opts) s of
        None \<Rightarrow> None
      | Some (err, d, w) \<Rightarrow>
          (case (if isResourceTimeoutError err
                 then (case api (CreateAutoScalingGroup opts) w of
                         None \<Rightarrow> None
                       | Some (Failed e, w') \<Rightarrow> Some (Some (ApiError e), w')
                       | Some (Succeeded, w') \<Rightarrow> Some (None, w')
                       | Some (_, w') \<Rightarrow> None)
                 else Some (err, w)) of
             None \<Rightarrow> None
           | Some (Some e, w') \<Rightarrow>
               Some (Some (Errorf ''Error creating AutoScaling Group: %s'' [ErrArg e]), d, w')
           | Some (None, w') \<Rightarrow> Some (None, d, w')))"

definition registerHooks ::
  "helpers \<Rightarrow> ResourceData \<Rightarrow> world \<Rightarrow> (error option \<times> world) option" where
  "registerHooks h d w =
     (if twoPhases d
      then
        (case putLifecycleHooks
                (generatePutLifecycleHookInputs (createName h d)
                   (initial_lifecycle_hook (attrs d))) w of
           None \<Rightarrow> None
         | Some (Some e, w1) \<Rightarrow> Some (Some e, w1)
         | Some (None, w1) \<Rightarrow>
             (case api (UpdateAutoScalingGroup (createUpdateOpts h d)) w1 of
                None \<Rightarrow> None
              | Some (Failed e, w2) \<Rightarrow>
                  Some (Some (Errorf ''Error setting AutoScaling Group initial capacity: %s''
                         [ErrArg (ApiError e)]), w2)
              | Some (Succeeded, w2) \<Rightarrow> Some (None, w2)
              | Some (_, w2) \<Rightarrow> None))
      else Some (None, w))"

definition resourceAwsAutoscalingGroupCreate ::
  "helpers \<Rightarrow> nat \<Rightarrow> ResourceData \<times> world \<Rightarrow> (error option \<times> ResourceData \<times> world) option" where
  "resourceAwsAutoscalingGroupCreate h timeout = (\<lambda>(d, w).
     let d1 = (if GetOk_string (Config.name (attrs d)) then d
               else d\<lparr>attrs := (attrs d)\<lparr>Config.name := createName h d\<rparr>\<rparr>)
     in case createOpts h d of
          Inl err \<Rightarrow> Some (Some err, d1, w)
        | Inr opts \<Rightarrow>
            (case createGroup timeout opts (d1, w) of
               None \<Rightarrow> None
             | Some (Some err, d2, w2) \<Rightarrow> Some (Some err, d2, w2)
             | Some (None, d2, w2) \<Rightarrow>
                 let d3 = d2\<lparr>Id := Config.name (attrs d2)\<rparr>
                 in (case registerHooks h d w2 of
                       None \<Rightarrow> None
                     | Some (err, w3) \<Rightarrow> Some (err, d3, w3))))"

section \<open>Lifecycle orchestrator: drain and delete\<close>

text \<open>
  The three retries of the delete run under \<^verbatim>\<open>d.Timeout(schema.TimeoutDelete)\<close>; the
  attempts that return within it are given for each.
\<close>

record attempts =
  drainAttempts :: nat
  deleteAttempts :: nat
  goneAttempts :: nat

text \<open>
  \<^verbatim>\<open>resourceAwsAutoscalingGroupDrain\<close>. \<open>drainPoll\<close> is the closure it retries; the
  closure calls \<^verbatim>\<open>d.SetId("")\<close> when the group is gone, so the state it transforms
  holds the resource data as well.
\<close>

definition drainPoll ::
  "ResourceData \<times> world \<Rightarrow> (RetryError option \<times> ResourceData \<times> world) option" where
  "drainPoll = (\<lambda>(d, w).
     case getAwsAutoscalingGroup (Id d) w of
       None \<Rightarrow> None
     | Some (Inl err, w') \<Rightarrow> Some (Some (NonRetryableError err), d, w')
     | Some (Inr None, w') \<Rightarrow> Some (None, d\<lparr>Id := []\<rparr>, w')
     | Some (Inr (Some g), w') \<Rightarrow>
         if length (Group.Instances g) = 0 then Some (None, d, w')
         else Some (Some (RetryableError
                (Errorf ''Group still has %d instances'' [IntArg (int (length (Group.Instances g)))])),
              d, w'))"

definition drainOpts :: "ResourceData \<Rightarrow> UpdateAutoScalingGroupInput" where
  "drainOpts d =
     UpdateAutoScalingGroupInput_zero
       \<lparr>UpdateAutoScalingGroupInput.AutoScalingGroupName := Some (Id d),
        UpdateAutoScalingGroupInput.DesiredCapacity := Some 0,
        UpdateAutoScalingGroupInput.MinSize := Some 0,
        UpdateAutoScalingGroupInput.MaxSize := Some 0\<rparr>"

definition resourceAwsAutoscalingGroupDrain ::
  "nat \<Rightarrow> ResourceData \<times> world \<Rightarrow> (error option \<times> ResourceData \<times> world) option" where
  "resourceAwsAutoscalingGroupDrain timeout = (\<lambda>(d, w).
     if force_delete (attrs d) then Some (None, d, w)
     else
       case api (UpdateAutoScalingGroup (drainOpts d)) w of
         None \<Rightarrow> None
       | Some (Failed err, w1) \<Rightarrow>
           Some (Some (Errorf ''Error setting capacity to zero to drain: %s''
                  [ErrArg (ApiError err)]), d, w1)
       | Some (Succeeded, w1) \<Rightarrow>
           (case Retry timeout drainPoll (d, w1) of
              None \<Rightarrow> None
            | Some (err, d2, w2) \<Rightarrow>
                if isResourceTimeoutError err then
                  (case getAwsAutoscalingGroup (Id d2) w2 of
                     None \<Rightarrow> None
                   | Some (Inl err', w3) \<Rightarrow>
                       Some (Some (Errorf
                          ''Error getting autoscaling group info when draining: %s''
                          [ErrArg err']), d2, w3)
                   | Some (Inr g, w3) \<Rightarrow>
                       (case g of
                          None \<Rightarrow> Some (None, d2, w3)
                        | Some g' \<Rightarrow>
                            if length (Group.Instances g') > 0
                            then Some (Some (Errorf ''Group still has %d instances''
                                   [IntArg (int (length (Group.Instances g')))]), d2, w3)
                            else Some (None, d2, w3)))
                else
                  (case err of
                     None \<Rightarrow> Some (None, d2, w2)
                   | Some e \<Rightarrow>
                       Some (Some (Errorf ''Error draining autoscaling group: %s'' [ErrArg e]),
                         d2, w2)))
       | Some (_, w1) \<Rightarrow> None)"

text \<open>
  \<^verbatim>\<open>resourceAwsAutoscalingGroupDelete\<close>, in three parts: the describe and the drain; the
  delete request with its retry (\<open>deleteAttempt\<close> is the closure, \<open>deleteGroup\<close> the rest of
  the function from \<^verbatim>\<open>deleteopts\<close> on); the wait until the group is gone
  (\<open>gonePoll\<close>, \<open>waitUntilDeleted\<close>), which ends the function.
\<close>

definition deleteOpts :: "ResourceData \<Rightarrow> DeleteAutoScalingGroupInput" where
  "deleteOpts d = \<lparr>DeleteAutoScalingGroupInput.AutoScalingGroupName = Some (Id d),
                    ForceDelete = Some (force_delete (attrs d))\<rparr>"

definition deleteAttempt ::
  "DeleteAutoScalingGroupInput \<Rightarrow> ResourceData \<times> world
   \<Rightarrow> (RetryError option \<times> ResourceData \<times> world) option" where
  "deleteAttempt deleteopts = (\<lambda>(d, w).
     case api (DeleteAutoScalingGroup deleteopts) w of
       None \<Rightarrow> None
     | Some (Failed err, w') \<Rightarrow>
         (case err of
            AWSError code message \<Rightarrow>
              if code = ''InvalidGroup.NotFound'' then Some (None, d, w')
              else if code = ''ResourceInUse'' \<or> code = ''ScalingActivityInProgress''
              then Some (Some (RetryableError (ApiError err)), d, w')
              else Some (Some (NonRetryableError (ApiError err)), d, w')
          | _ \<Rightarrow> Some (Some (NonRetryableError (ApiError err)), d, w'))
     | Some (Succeeded, w') \<Rightarrow> Some (None, d, w')
     | Some (_, w') \<Rightarrow> None)"

definition gonePoll ::
  "ResourceData \<times> world \<Rightarrow> (RetryError option \<times> ResourceData \<times> world) option" where
  "gonePoll = (\<lambda>(d, w).
     case getAwsAutoscalingGroup (Id d) w of
       None \<Rightarrow> None
     | Some (Inr (Some g), w') \<Rightarrow>
         Some (Some (RetryableError (Errorf ''Auto Scaling Group still exists'' [])), d, w')
     | Some (_, w') \<Rightarrow> Some (None, d, w'))"

definition waitUntilDeleted ::
  "nat \<Rightarrow> ResourceData \<times> world \<Rightarrow> (error option \<times> ResourceData \<times> world) option" where
  "waitUntilDeleted timeout s =
     (case Retry timeout gonePoll s of
        None \<Rightarrow> None
      | Some (err, d, w) \<Rightarrow>
          if isResourceTimeoutError err then
            (case getAwsAutoscalingGroup (Id d) w of
               None \<Rightarrow> None
             | Some (Inr (Some g), w') \<Rightarrow>
                 Some (Some (Errorf ''Auto Scaling Group still exists'' []), d, w')
             | Some (Inr None, w') \<Rightarrow> Some (None, d, w')
             | Some (Inl err', w') \<Rightarrow>
                 Some (Some (Errorf ''Error deleting autoscaling group: %s'' [ErrArg err']), d, w'))
          else
            (case err of
               None \<Rightarrow> Some (None, d, w)
             | Some e \<Rightarrow>
                 Some (Some (Errorf ''Error deleting autoscaling group: %s'' [ErrArg e]), d, w)))"

definition deleteGroup ::
  "attempts \<Rightarrow> ResourceData \<times> world \<Rightarrow> (error option \<times> ResourceData \<times> world) option" where
  "deleteGroup t = (\<lambda>(d, w).
     let deleteopts = deleteOpts d
     in case Retry (deleteAttempts t) (deleteAttempt deleteopts) (d, w) of
          None \<Rightarrow> None
        | Some (err, d1, w1) \<Rightarrow>
            if isResourceTimeoutError err then
              (case api (DeleteAutoScalingGroup deleteopts) w1 of
                 None \<Rightarrow> None
               | Some (Failed err', w2) \<Rightarrow>
                   if isAWSErr (Some (ApiError err')) ''InvalidGroup.NotFound'' []
                   then Some (None, d1, w2)
                   else Some (Some (Errorf ''Error deleting autoscaling group: %s''
                          [ErrArg (ApiError err')]), d1, w2)
               | Some (Succeeded, w2) \<Rightarrow> waitUntilDeleted (goneAttempts t) (d1, w2)
               | Some (_, w2) \<Rightarrow> None)
            else
              (case err of
                 Some e \<Rightarrow>
                   Some (Some (Errorf ''Error deleting autoscaling group: %s'' [ErrArg e]), d1, w1)
               | None \<Rightarrow> waitUntilDeleted (goneAttempts t) (d1, w1)))"

definition resourceAwsAutoscalingGroupDelete ::
  "attempts \<Rightarrow> ResourceData \<times> world \<Rightarrow> (error option \<times> ResourceData \<times> world) option" where
  "resourceAwsAutoscalingGroupDelete t = (\<lambda>(d, w).
     case getAwsAutoscalingGroup (Id d) w of
       None \<Rightarrow> None
     | Some (Inl err, w1) \<Rightarrow> Some (Some err, d, w1)
     | Some (Inr None, w1) \<Rightarrow> Some (None, d, w1)
     | Some (Inr (Some g), w1) \<Rightarrow>
         (case (if length (Group.Instances g) > 0 \<or> Group.DesiredCapacity g > 0
                then resourceAwsAutoscalingGroupDrain (drainAttempts t) (d, w1)
                else Some (None, d, w1)) of
            None \<Rightarrow> None
          | Some (Some err, s2) \<Rightarrow> Some (Some err, s2)
          | Some (None, s2) \<Rightarrow> deleteGroup t s2))"


text \<open>
  What a response to \<^verbatim>\<open>DescribeAutoScalingGroups\<close> says about the group \<open>asgName\<close>:
  that there is no such group, or how many instances the group has.
\<close>

definition reportsNotFound :: "string \<Rightarrow> response \<Rightarrow> bool" where
  "reportsNotFound asgName r =
     (case r of
        Failed (AWSError code message) \<Rightarrow> code = ''InvalidGroup.NotFound''
      | Groups gs \<Rightarrow> find (\<lambda>asc. Group.AutoScalingGroupName asc = asgName) gs = None
      | _ \<Rightarrow> False)"

definition observedInstances :: "string \<Rightarrow> response \<Rightarrow> nat option" where
  "observedInstances asgName r =
     (case r of
        Groups gs \<Rightarrow>
          (case find (\<lambda>asc. Group.AutoScalingGroupName asc = asgName) gs of
             Some g \<Rightarrow> Some (length (Group.Instances g))
           | None \<Rightarrow> None)
      | _ \<Rightarrow> None)"

text \<open>The responses to a delete request that the claim calls retryable.\<close>

definition retryableDeleteError :: "response \<Rightarrow> bool" where
  "retryableDeleteError r =
     (case r of
        Failed (AWSError code message) \<Rightarrow>
          code = ''ResourceInUse'' \<or> code = ''ScalingActivityInProgress''
      | _ \<Rightarrow> False)"

section \<open>Lifecycle orchestrator: update\<close>

text \<open>
  A Go \<^verbatim>\<open>map[string]string\<close> is the list of its entries, one for each key; an
  assignment \<^verbatim>\<open>m[k] = v\<close> is \<open>AList.update k v m\<close>, and two maps are deeply equal when
  they have the same entries.
  \<^verbatim>\<open>
  oldPropagatedTags := map[string]string{}
  for _, tag := range oldTags {
      if aws.BoolValue(tag.PropagateAtLaunch) {
          oldPropagatedTags[aws.StringValue(tag.Key)] = aws.StringValue(tag.Value)
      }
  }
  \<close>
\<close>

definition propagatedTags :: "Tag list \<Rightarrow> (string \<times> string) list" where
  "propagatedTags ts =
     foldl (\<lambda>m tag. if aws_BoolValue (PropagateAtLaunch tag)
                     then AList.update (aws_StringValue (Key tag)) (aws_StringValue (Value tag)) m
                     else m) [] ts"

definition reflect_DeepEqual :: "(string \<times> string) list \<Rightarrow> (string \<times> string) list \<Rightarrow> bool" where
  "reflect_DeepEqual m m' = (set m = set m')"

text \<open>
  \<^verbatim>\<open>resourceAwsAutoscalingGroupUpdate\<close> up to the wait for capacity. \<open>updateOpts\<close> gives
  each field of \<^verbatim>\<open>opts\<close> the value that the assignments of the function leave in it;
  \<open>shouldWaitForCapacity\<close> and \<open>shouldRefreshInstances\<close> are the values of the two flags
  when the function reaches the update call; \<open>oldTags\<close> and \<open>newTags\<close> are the merged tag
  collections and \<open>updateTags\<close> the call that applies their difference.
  \<^verbatim>\<open>
  if d.HasChanges("tag", "tags") {
      ...
      if err := keyvaluetags.AutoscalingUpdateTags(conn, d.Id(), ..., oldTags, newTags); err != nil {
          return fmt.Errorf("error updating tags for Auto Scaling Group (%s): %w", d.Id(), err)
      }
      ...
      if !reflect.DeepEqual(oldPropagatedTags, newPropagatedTags) {
          shouldRefreshInstances = true
      }
  }
  _, err := conn.UpdateAutoScalingGroup(&opts)
  if err != nil { return fmt.Errorf("Error updating Autoscaling group: %s", err) }
  if shouldRefreshInstances {
      d.Set("instance_refresh_token", resource.PrefixedUniqueId(""))
  }
  if d.HasChange("load_balancers") { ... }
  if d.HasChange("target_group_arns") { ... }
  \<close>
\<close>

definition updateOpts :: "helpers \<Rightarrow> ResourceData \<Rightarrow> UpdateAutoScalingGroupInput" where
  "updateOpts h d =
     (let c = attrs d
      in \<lparr>UpdateAutoScalingGroupInput.AutoScalingGroupName = Some (Id d),
          NewInstancesProtectedFromScaleIn = Some (protect_from_scale_in c),
          DefaultCooldown =
            (if HasChange default_cooldown d then Some (default_cooldown c) else None),
          DesiredCapacity =
            (if HasChange desired_capacity d then Some (desired_capacity c) else None),
          LaunchConfigurationName =
            (if HasChange launch_configuration d \<and> GetOk_string (launch_configuration c)
             then Some (launch_configuration c) else None),
          LaunchTemplate =
            (if HasChange Config.launch_template d \<and> GetOk_list (Config.launch_template c)
             then fst (expandLaunchTemplateSpecification h (Config.launch_template c))
             else None),
          MixedInstancesPolicy =
            (if HasChange mixed_instances_policy d
             then expandAutoScalingMixedInstancesPolicy (mixed_instances_policy c) else None),
          MinSize = (if HasChange min_size d then Some (min_size c) else None),
          MaxSize = (if HasChange max_size d then Some (max_size c) else None),
          MaxInstanceLifetime =
            (if HasChange max_instance_lifetime d then Some (max_instance_lifetime c) else None),
          HealthCheckGracePeriod =
            (if HasChange health_check_grace_period d \<or> HasChange health_check_type d
             then Some (health_check_grace_period c) else None),
          HealthCheckType =
            (if HasChange health_check_type d then Some (health_check_type c) else None),
          VPCZoneIdentifier =
            (if HasChange vpc_zone_identifier d
             then Some (expandVpcZoneIdentifiers (vpc_zone_identifier c)) else None),
          AvailabilityZones =
            (if HasChange availability_zones d \<and> GetOk_list (availability_zones c)
             then expandStringList h (availability_zones c) else []),
          PlacementGroup =
            (if HasChange placement_group d then Some (placement_group c) else None),
          TerminationPolicies =
            (if HasChange termination_policies d
             then (if GetOk_list (termination_policies c)
                   then expandStringList h (termination_policies c) else [''Default''])
             else []),
          ServiceLinkedRoleARN =
            (if HasChange service_linked_role_arn d
             then Some (service_linked_role_arn c) else None)\<rparr>)"

definition shouldWaitForCapacity :: "ResourceData \<Rightarrow> bool" where
  "shouldWaitForCapacity d = (HasChange desired_capacity d \<or> HasChange min_size d)"

definition oldTags :: "helpers \<Rightarrow> ResourceData \<Rightarrow> Tag list" where
  "oldTags h d = mergedAutoscalingTags h (tag (prior d)) (tags (prior d)) (Id d)"

definition newTags :: "helpers \<Rightarrow> ResourceData \<Rightarrow> Tag list" where
  "newTags h d = mergedAutoscalingTags h (tag (attrs d)) (tags (attrs d)) (Id d)"

definition shouldRefreshInstances :: "helpers \<Rightarrow> ResourceData \<Rightarrow> bool" where
  "shouldRefreshInstances h d =
     (HasChange launch_configuration d
      \<or> HasChange Config.launch_template d
      \<or> HasChange mixed_instances_policy d
      \<or> HasChange vpc_zone_identifier d
      \<or> HasChange availability_zones d
      \<or> HasChange placement_group d
      \<or> ((HasChange tag d \<or> HasChange tags d)
          \<and> \<not> reflect_DeepEqual (propagatedTags (oldTags h d)) (propagatedTags (newTags h d))))"

definition updateTags :: "helpers \<Rightarrow> ResourceData \<Rightarrow> world \<Rightarrow> (error option \<times> world) option" where
  "updateTags h d w =
     (if HasChange tag d \<or> HasChange tags d
      then
        (case api (AutoscalingUpdateTags (Id d) (oldTags h d) (newTags h d)) w of
           None \<Rightarrow> None
         | Some (Failed err, w') \<Rightarrow>
             Some (Some (Errorf ''error updating tags for Auto Scaling Group (%s): %w''
                    [StrArg (Id d), ErrArg (ApiError err)]), w')
         | Some (Succeeded, w') \<Rightarrow> Some (None, w')
         | Some (_, w') \<Rightarrow> None)
      else Some (None, w))"

definition resourceAwsAutoscalingGroupUpdate ::
  "helpers \<Rightarrow> ResourceData \<times> world \<Rightarrow> (error option \<times> ResourceData \<times> world) option" where
  "resourceAwsAutoscalingGroupUpdate h = (\<lambda>(d, w).
     case updateTags h d w of
       None \<Rightarrow> None
     | Some (Some err, w1) \<Rightarrow> Some (Some err, d, w1)
     | Some (None, w1) \<Rightarrow>
         (case api (UpdateAutoScalingGroup (updateOpts h d)) w1 of
            None \<Rightarrow> None
          | Some (Failed err, w2) \<Rightarrow>
              Some (Some (Errorf ''Error updating Autoscaling group: %s''
                     [ErrArg (ApiError err)]), d, w2)
          | Some (Succeeded, w2) \<Rightarrow>
              let d1 = (if shouldRefreshInstances h d
                        then d\<lparr>attrs := (attrs d)
                               \<lparr>instance_refresh_token := PrefixedUniqueId h []\<rparr>\<rparr>
                        else d)
              in (case (if HasChange load_balancers d
                        then updateAttachments LoadBalancersRemoved LoadBalancersAdded h (Id d)
                               (load_balancers (prior d)) (load_balancers (attrs d)) w2
                        else Some (None, w2)) of
                    None \<Rightarrow> None
                  | Some (Some err, w3) \<Rightarrow> Some (Some err, d1, w3)
                  | Some (None, w3) \<Rightarrow>
                      (case (if HasChange target_group_arns d
                             then updateAttachments LoadBalancerTargetGroupsRemoved
                                    LoadBalancerTargetGroupsAdded h (Id d)
                                    (target_group_arns (prior d)) (target_group_arns (attrs d)) w3
                             else Some (None, w3)) of
                         None \<Rightarrow> None
                       | Some (err, w4) \<Rightarrow> Some (err, d1, w4)))
          | Some (_, w2) \<Rightarrow> None))"

section \<open>Theorems\<close>

lemma foldl_append_singletons: "foldl (\<lambda>acc s. acc @ [s]) acc xs = acc @ xs"
  by (induction xs arbitrary: acc) simp_all

lemma strings_Join_empty_Cons:
  "xs \<noteq> [] \<Longrightarrow> strings_Join ([] # xs) sep = sep @ strings_Join xs sep"
  by (cases xs) simp_all

lemma strings_Join_replicate_empty:
  "xs \<noteq> [] \<Longrightarrow>
   strings_Join (replicate n [] @ xs) sep = concat (replicate n sep) @ strings_Join xs sep"
  by (induction n) (simp_all add: strings_Join_empty_Cons)

lemma expandVpcZoneIdentifiers_eq:
  "list \<noteq> [] \<Longrightarrow>
   expandVpcZoneIdentifiers list = replicate (length list) CHR '','' @ strings_Join list '',''"
proof -
  assume ne: "list \<noteq> []"
  have "concat (replicate n '','') = replicate n CHR '',''" for n
    by (induction n) simp_all
  with ne show ?thesis
    by (simp add: expandVpcZoneIdentifiers_def foldl_append_singletons
        strings_Join_replicate_empty)
qed

text \<open>
  C10. For a non-empty list of \<open>n\<close> subnet identifiers the claim expects the plain
  comma-separated join. The code starts from \<open>n\<close> empty strings and appends the
  identifiers, so the string sent for the two subnets \<open>subnet-a\<close>, \<open>subnet-b\<close> has two
  leading empty entries.
\<close>

theorem expandVpcZoneIdentifiers_leading_commas:
  "expandVpcZoneIdentifiers [''subnet-a'', ''subnet-b''] = '',,subnet-a,subnet-b''
   \<and> expandVpcZoneIdentifiers [''subnet-a'', ''subnet-b'']
       \<noteq> strings_Join [''subnet-a'', ''subnet-b''] '',''"
  by (simp add: expandVpcZoneIdentifiers_def)


subsection \<open>Attachment wait\<close>

lemma api_Some: "api c w = Some (r, w') \<Longrightarrow> trace w' = trace w @ [(c, r)] \<and> script w = r # script w'"
  by (auto simp: api_def split: list.splits)















subsection \<open>Batched attachment updates\<close>












subsection \<open>Delete\<close>

lemma getAws_eval:
  "script w = r # rest \<Longrightarrow>
   getAwsAutoscalingGroup n w =
     (let w' = \<lparr>script = rest, trace = trace w @ [(DescribeAutoScalingGroups [n], r)]\<rparr> in
      case r of
        Failed err \<Rightarrow>
          if reportsNotFound n r then Some (Inr None, w')
          else Some (Inl (Errorf ''Error retrieving AutoScaling groups: %s''
                 [ErrArg (ApiError err)]), w')
      | Groups gs \<Rightarrow> Some (Inr (find (\<lambda>asc. Group.AutoScalingGroupName asc = n) gs), w')
      | _ \<Rightarrow> None)"
  by (auto simp: getAwsAutoscalingGroup_def api_def reportsNotFound_def
      split: response.splits api_error.splits)

lemma getAws_step:
  assumes "getAwsAutoscalingGroup n w = Some (x, w')"
  shows "\<exists>r. trace w' = trace w @ [(DescribeAutoScalingGroups [n], r)] \<and> script w = r # script w'
     \<and> (x = Inr None \<longrightarrow> reportsNotFound n r)
     \<and> (\<forall>g. x = Inr (Some g) \<longrightarrow> observedInstances n r = Some (length (Group.Instances g)))"
proof -
  from assms obtain r rest where sc: "script w = r # rest"
    by (cases "script w") (auto simp: getAwsAutoscalingGroup_def api_def)
  from assms getAws_eval[OF sc, of n] sc show ?thesis
    by (intro exI[of _ r])
       (auto simp: Let_def reportsNotFound_def observedInstances_def
          split: response.splits api_error.splits if_splits)
qed

text \<open>
  C7. When the first describe of a delete reports the group as not found (by the error
  code or by a list without the group), the delete returns success; the describe is the
  only call it made and the resource data is unchanged.
\<close>

theorem delete_of_absent_group_makes_no_further_call:
  assumes "script w = r # rest" and "reportsNotFound (Id d) r"
  shows "resourceAwsAutoscalingGroupDelete t (d, w)
         = Some (None, d,
             \<lparr>script = rest, trace = trace w @ [(DescribeAutoScalingGroups [Id d], r)]\<rparr>)"
  using assms
  by (auto simp: resourceAwsAutoscalingGroupDelete_def getAws_eval reportsNotFound_def
      split: response.splits api_error.splits)


theorem delete_of_absent_group_makes_no_further_call_witness:
  "resourceAwsAutoscalingGroupDelete \<lparr>drainAttempts = 3, deleteAttempts = 3, goneAttempts = 3\<rparr>
     (exampleData,
      \<lparr>script = [Failed (AWSError ''InvalidGroup.NotFound'' ''no such group''), Succeeded],
       trace = []\<rparr>)
   = Some (None, exampleData,
       \<lparr>script = [Succeeded],
        trace = [(DescribeAutoScalingGroups [''asg''],
                  Failed (AWSError ''InvalidGroup.NotFound'' ''no such group''))]\<rparr>)"
proof -
  have s: "script \<lparr>script = [Failed (AWSError ''InvalidGroup.NotFound'' ''no such group''),
              Succeeded], trace = []\<rparr>
           = Failed (AWSError ''InvalidGroup.NotFound'' ''no such group'') # [Succeeded]"
    by simp
  have n: "reportsNotFound (Id exampleData)
             (Failed (AWSError ''InvalidGroup.NotFound'' ''no such group''))"
    by (simp add: reportsNotFound_def)
  from delete_of_absent_group_makes_no_further_call[OF s n]
  show ?thesis by (simp add: exampleData_def)
qed


subsection \<open>The delete request and its retry\<close>

lemma strings_Contains_empty [simp]: "strings_Contains s []"
  by (cases s) simp_all

lemma api_eval:
  "script w = r # rest \<Longrightarrow> api c w = Some (r, \<lparr>script = rest, trace = trace w @ [(c, r)]\<rparr>)"
  by (simp add: api_def)

lemma deleteAttempt_retryable:
  assumes "retryableDeleteError r" and "script w = r # rest"
  shows "\<exists>e. r = Failed e \<and> deleteAttempt opts (d, w)
         = Some (Some (RetryableError (ApiError e)), d,
             \<lparr>script = rest, trace = trace w @ [(DeleteAutoScalingGroup opts, r)]\<rparr>)"
  using assms
  by (auto simp: deleteAttempt_def retryableDeleteError_def api_eval
      split: response.splits api_error.splits)

lemma Retry_deleteAttempt_retryable:
  "list_all retryableDeleteError errs \<Longrightarrow> script w = errs @ rest \<Longrightarrow> length errs < n \<Longrightarrow>
   Retry n (deleteAttempt opts) (d, w)
   = Retry (n - length errs) (deleteAttempt opts)
       (d, \<lparr>script = rest,
            trace = trace w @ map (Pair (DeleteAutoScalingGroup opts)) errs\<rparr>)"
proof (induction errs arbitrary: n w)
  case Nil
  then have "w = \<lparr>script = rest, trace = trace w\<rparr>" by (cases w) simp
  then show ?case by simp
next
  case (Cons r errs)
  from Cons.prems(3) obtain m where n: "n = Suc m" and m: "length errs < m" "m \<noteq> 0"
    by (cases n) auto
  from Cons.prems(1) have r: "retryableDeleteError r" and rs: "list_all retryableDeleteError errs"
    by simp_all
  from Cons.prems(2) have sc: "script w = r # (errs @ rest)" by simp
  let ?w1 = "\<lparr>script = errs @ rest, trace = trace w @ [(DeleteAutoScalingGroup opts, r)]\<rparr>"
  from deleteAttempt_retryable[OF r sc, of opts d] obtain e where
    "deleteAttempt opts (d, w) = Some (Some (RetryableError (ApiError e)), d, ?w1)" by blast
  then have "Retry n (deleteAttempt opts) (d, w) = Retry m (deleteAttempt opts) (d, ?w1)"
    using m by (simp add: n)
  also have "\<dots> = Retry (m - length errs) (deleteAttempt opts)
       (d, \<lparr>script = rest,
            trace = trace ?w1 @ map (Pair (DeleteAutoScalingGroup opts)) errs\<rparr>)"
    using m by (intro Cons.IH[OF rs]) simp_all
  finally show ?case by (simp add: n)
qed

lemma Retry_deleteAttempt_exhausted:
  assumes "list_all retryableDeleteError (es @ [Failed e])"
    and "script w = (es @ [Failed e]) @ rest"
  shows "Retry (Suc (length es)) (deleteAttempt opts) (d, w)
         = Some (Some (ApiError e), d,
             \<lparr>script = rest,
              trace = trace w @ map (Pair (DeleteAutoScalingGroup opts)) (es @ [Failed e])\<rparr>)"
proof -
  let ?w1 = "\<lparr>script = Failed e # rest,
            trace = trace w @ map (Pair (DeleteAutoScalingGroup opts)) es\<rparr>"
  from assms(1) have es: "list_all retryableDeleteError es" and e: "retryableDeleteError (Failed e)"
    by simp_all
  from assms(2) have sc: "script w = es @ (Failed e # rest)" by simp
  have "Retry (Suc (length es)) (deleteAttempt opts) (d, w)
        = Retry (Suc 0) (deleteAttempt opts) (d, ?w1)"
    using Retry_deleteAttempt_retryable[OF es sc, of "Suc (length es)" opts d] by simp
  moreover from deleteAttempt_retryable[OF e, of ?w1 rest opts d]
  have "deleteAttempt opts (d, ?w1)
        = Some (Some (RetryableError (ApiError e)), d,
            \<lparr>script = rest,
             trace = trace ?w1 @ [(DeleteAutoScalingGroup opts, Failed e)]\<rparr>)"
    by auto
  ultimately show ?thesis by simp
qed

lemma deleteAttempt_final:
  assumes "\<not> retryableDeleteError r" and "script w = r # rest"
  shows "deleteAttempt opts (d, w)
         = (let w' = \<lparr>script = rest, trace = trace w @ [(DeleteAutoScalingGroup opts, r)]\<rparr> in
            case r of
              Succeeded \<Rightarrow> Some (None, d, w')
            | Failed e \<Rightarrow>
                if reportsNotFound (Id d) r then Some (None, d, w')
                else Some (Some (NonRetryableError (ApiError e)), d, w')
            | _ \<Rightarrow> None)"
  using assms
  by (auto simp: deleteAttempt_def retryableDeleteError_def reportsNotFound_def api_eval
      split: response.splits api_error.splits)

text \<open>
  C6. Let the provider answer the delete requests with the errors \<open>errs\<close>, all of them
  \<open>ResourceInUse\<close> or \<open>ScalingActivityInProgress\<close>. While the attempts of the timeout
  last, each of these errors is followed by another request. A response \<open>r\<close> that is
  not one of them ends the retry: \<open>InvalidGroup.NotFound\<close> is taken as a successful
  delete (the function goes on to wait until the group is gone, as after a success),
  every other error is returned at once, with no further call. When the errors use up
  the attempts of the timeout, the last of them is returned, and no further request is
  made.
\<close>

theorem delete_request_retried_until_timeout:
  assumes "list_all retryableDeleteError errs" and "script w = errs @ rest"
  shows "(length errs < deleteAttempts t \<and> rest = r # rest' \<and> \<not> retryableDeleteError r \<longrightarrow>
          deleteGroup t (d, w)
          = (let w' = \<lparr>script = rest',
                        trace = trace w @ map (Pair (DeleteAutoScalingGroup (deleteOpts d)))
                                  (errs @ [r])\<rparr> in
             case r of
               Succeeded \<Rightarrow> waitUntilDeleted (goneAttempts t) (d, w')
             | Failed e \<Rightarrow>
                 if reportsNotFound (Id d) r then waitUntilDeleted (goneAttempts t) (d, w')
                 else Some (Some (Errorf ''Error deleting autoscaling group: %s'' [ErrArg (ApiError e)]),
                        d, w')
             | _ \<Rightarrow> None))
       \<and> (errs = es @ [Failed e'] \<and> length errs = deleteAttempts t \<longrightarrow>
          deleteGroup t (d, w)
          = Some (Some (Errorf ''Error deleting autoscaling group: %s'' [ErrArg (ApiError e')]),
              d,
              \<lparr>script = rest,
               trace = trace w @ map (Pair (DeleteAutoScalingGroup (deleteOpts d))) errs\<rparr>))"
proof (intro conjI impI)
  let ?opts = "deleteOpts d"
  {
    assume a: "length errs < deleteAttempts t \<and> rest = r # rest' \<and> \<not> retryableDeleteError r"
    let ?w1 = "\<lparr>script = r # rest',
            trace = trace w @ map (Pair (DeleteAutoScalingGroup ?opts)) errs\<rparr>"
    from a obtain m where m: "deleteAttempts t - length errs = Suc m"
      by (cases "deleteAttempts t - length errs") auto
    from a assms(2) have sc: "script w = errs @ (r # rest')" by simp
    from a have "Retry (deleteAttempts t) (deleteAttempt ?opts) (d, w)
        = Retry (Suc m) (deleteAttempt ?opts) (d, ?w1)"
      using Retry_deleteAttempt_retryable[OF assms(1) sc, of "deleteAttempts t" ?opts d] m
      by simp
    with a deleteAttempt_final[of r ?w1 rest' ?opts d]
    show "deleteGroup t (d, w)
          = (let w' = \<lparr>script = rest',
                        trace = trace w @ map (Pair (DeleteAutoScalingGroup (deleteOpts d)))
                                  (errs @ [r])\<rparr> in
             case r of
               Succeeded \<Rightarrow> waitUntilDeleted (goneAttempts t) (d, w')
             | Failed e \<Rightarrow>
                 if reportsNotFound (Id d) r then waitUntilDeleted (goneAttempts t) (d, w')
                 else Some (Some (Errorf ''Error deleting autoscaling group: %s'' [ErrArg (ApiError e)]),
                        d, w')
             | _ \<Rightarrow> None)"
      by (auto simp: deleteGroup_def deleteOpts_def Let_def isResourceTimeoutError_def
          split: response.splits)
  }
  {
    assume a: "errs = es @ [Failed e'] \<and> length errs = deleteAttempts t"
    then have n: "deleteAttempts t = Suc (length es)" by auto
    from a assms have "Retry (Suc (length es)) (deleteAttempt ?opts) (d, w)
        = Some (Some (ApiError e'), d,
            \<lparr>script = rest,
             trace = trace w @ map (Pair (DeleteAutoScalingGroup ?opts)) (es @ [Failed e'])\<rparr>)"
      by (intro Retry_deleteAttempt_exhausted) simp_all
    with a n show "deleteGroup t (d, w)
          = Some (Some (Errorf ''Error deleting autoscaling group: %s'' [ErrArg (ApiError e')]),
              d,
              \<lparr>script = rest,
               trace = trace w @ map (Pair (DeleteAutoScalingGroup (deleteOpts d))) errs\<rparr>)"
      by (simp add: deleteGroup_def Let_def isResourceTimeoutError_def)
  }
qed

theorem delete_request_retried_until_timeout_witness:
  "deleteGroup \<lparr>drainAttempts = 3, deleteAttempts = 3, goneAttempts = 3\<rparr>
     (exampleData,
      \<lparr>script = [Failed (AWSError ''ResourceInUse'' ''in use''),
                 Failed (AWSError ''ScalingActivityInProgress'' ''scaling''),
                 Failed (AWSError ''InvalidGroup.NotFound'' ''no such group''),
                 Groups []],
       trace = []\<rparr>)
   = Some (None, exampleData,
       \<lparr>script = [],
        trace = [(DeleteAutoScalingGroup (deleteOpts exampleData),
                   Failed (AWSError ''ResourceInUse'' ''in use'')),
                 (DeleteAutoScalingGroup (deleteOpts exampleData),
                   Failed (AWSError ''ScalingActivityInProgress'' ''scaling'')),
                 (DeleteAutoScalingGroup (deleteOpts exampleData),
                   Failed (AWSError ''InvalidGroup.NotFound'' ''no such group'')),
                 (DescribeAutoScalingGroups [''asg''], Groups [])]\<rparr>)
   \<and> deleteGroup \<lparr>drainAttempts = 3, deleteAttempts = 3, goneAttempts = 3\<rparr>
     (exampleData,
      \<lparr>script = [Failed (AWSError ''ResourceInUse'' ''in use''),
                 Failed (AWSError ''ValidationError'' ''not valid''),
                 Succeeded],
       trace = []\<rparr>)
   = Some (Some (Errorf ''Error deleting autoscaling group: %s''
                  [ErrArg (ApiError (AWSError ''ValidationError'' ''not valid''))]),
       exampleData,
       \<lparr>script = [Succeeded],
        trace = [(DeleteAutoScalingGroup (deleteOpts exampleData),
                   Failed (AWSError ''ResourceInUse'' ''in use'')),
                 (DeleteAutoScalingGroup (deleteOpts exampleData),
                   Failed (AWSError ''ValidationError'' ''not valid''))]\<rparr>)
   \<and> deleteGroup \<lparr>drainAttempts = 3, deleteAttempts = 3, goneAttempts = 3\<rparr>
     (exampleData,
      \<lparr>script = [Failed (AWSError ''ResourceInUse'' ''in use''),
                 Failed (AWSError ''ScalingActivityInProgress'' ''scaling''),
                 Failed (AWSError ''ResourceInUse'' ''still in use''),
                 Succeeded],
       trace = []\<rparr>)
   = Some (Some (Errorf ''Error deleting autoscaling group: %s''
                  [ErrArg (ApiError (AWSError ''ResourceInUse'' ''still in use''))]),
       exampleData,
       \<lparr>script = [Succeeded],
        trace = [(DeleteAutoScalingGroup (deleteOpts exampleData),
                   Failed (AWSError ''ResourceInUse'' ''in use'')),
                 (DeleteAutoScalingGroup (deleteOpts exampleData),
                   Failed (AWSError ''ScalingActivityInProgress'' ''scaling'')),
                 (DeleteAutoScalingGroup (deleteOpts exampleData),
                   Failed (AWSError ''ResourceInUse'' ''still in use''))]\<rparr>)"
proof -
  have r1: "list_all retryableDeleteError
      [Failed (AWSError ''ResourceInUse'' ''in use''),
       Failed (AWSError ''ScalingActivityInProgress'' ''scaling'')]"
    and r2: "list_all retryableDeleteError [Failed (AWSError ''ResourceInUse'' ''in use'')]"
    and r3: "list_all retryableDeleteError
      [Failed (AWSError ''ResourceInUse'' ''in use''),
       Failed (AWSError ''ScalingActivityInProgress'' ''scaling''),
       Failed (AWSError ''ResourceInUse'' ''still in use'')]"
    by (simp_all add: retryableDeleteError_def)
  have s1: "script \<lparr>script = [Failed (AWSError ''ResourceInUse'' ''in use''),
                 Failed (AWSError ''ScalingActivityInProgress'' ''scaling''),
                 Failed (AWSError ''InvalidGroup.NotFound'' ''no such group''),
                 Groups []], trace = []\<rparr>
      = [Failed (AWSError ''ResourceInUse'' ''in use''),
         Failed (AWSError ''ScalingActivityInProgress'' ''scaling'')]
        @ [Failed (AWSError ''InvalidGroup.NotFound'' ''no such group''), Groups []]"
    and s2: "script \<lparr>script = [Failed (AWSError ''ResourceInUse'' ''in use''),
                 Failed (AWSError ''ValidationError'' ''not valid''),
                 Succeeded], trace = []\<rparr>
      = [Failed (AWSError ''ResourceInUse'' ''in use'')]
        @ [Failed (AWSError ''ValidationError'' ''not valid''), Succeeded]"
    and s3: "script \<lparr>script = [Failed (AWSError ''ResourceInUse'' ''in use''),
                 Failed (AWSError ''ScalingActivityInProgress'' ''scaling''),
                 Failed (AWSError ''ResourceInUse'' ''still in use''),
                 Succeeded], trace = []\<rparr>
      = [Failed (AWSError ''ResourceInUse'' ''in use''),
         Failed (AWSError ''ScalingActivityInProgress'' ''scaling''),
         Failed (AWSError ''ResourceInUse'' ''still in use'')]
        @ [Succeeded]"
    by simp_all
  note t1 = delete_request_retried_until_timeout[OF r1 s1,
      of "\<lparr>drainAttempts = 3, deleteAttempts = 3, goneAttempts = 3\<rparr>"
         "Failed (AWSError ''InvalidGroup.NotFound'' ''no such group'')" "[Groups []]"
         exampleData]
  note t2 = delete_request_retried_until_timeout[OF r2 s2,
      of "\<lparr>drainAttempts = 3, deleteAttempts = 3, goneAttempts = 3\<rparr>"
         "Failed (AWSError ''ValidationError'' ''not valid'')" "[Succeeded]"
         exampleData]
  note t3 = delete_request_retried_until_timeout[OF r3 s3,
      of "\<lparr>drainAttempts = 3, deleteAttempts = 3, goneAttempts = 3\<rparr>" _ _ exampleData
         "[Failed (AWSError ''ResourceInUse'' ''in use''),
           Failed (AWSError ''ScalingActivityInProgress'' ''scaling'')]"
         "AWSError ''ResourceInUse'' ''still in use''"]
  from t1 have a: "deleteGroup \<lparr>drainAttempts = 3, deleteAttempts = 3, goneAttempts = 3\<rparr>
     (exampleData,
      \<lparr>script = [Failed (AWSError ''ResourceInUse'' ''in use''),
                 Failed (AWSError ''ScalingActivityInProgress'' ''scaling''),
                 Failed (AWSError ''InvalidGroup.NotFound'' ''no such group''),
                 Groups []],
       trace = []\<rparr>)
   = Some (None, exampleData,
       \<lparr>script = [],
        trace = [(DeleteAutoScalingGroup (deleteOpts exampleData),
                   Failed (AWSError ''ResourceInUse'' ''in use'')),
                 (DeleteAutoScalingGroup (deleteOpts exampleData),
                   Failed (AWSError ''ScalingActivityInProgress'' ''scaling'')),
                 (DeleteAutoScalingGroup (deleteOpts exampleData),
                   Failed (AWSError ''InvalidGroup.NotFound'' ''no such group'')),
                 (DescribeAutoScalingGroups [''asg''], Groups [])]\<rparr>)"
    by (simp add: retryableDeleteError_def reportsNotFound_def waitUntilDeleted_def
        gonePoll_def getAwsAutoscalingGroup_def api_def exampleData_def
        isResourceTimeoutError_def numeral_3_eq_3)
  from t2 have b: "deleteGroup \<lparr>drainAttempts = 3, deleteAttempts = 3, goneAttempts = 3\<rparr>
     (exampleData,
      \<lparr>script = [Failed (AWSError ''ResourceInUse'' ''in use''),
                 Failed (AWSError ''ValidationError'' ''not valid''),
                 Succeeded],
       trace = []\<rparr>)
   = Some (Some (Errorf ''Error deleting autoscaling group: %s''
                  [ErrArg (ApiError (AWSError ''ValidationError'' ''not valid''))]),
       exampleData,
       \<lparr>script = [Succeeded],
        trace = [(DeleteAutoScalingGroup (deleteOpts exampleData),
                   Failed (AWSError ''ResourceInUse'' ''in use'')),
                 (DeleteAutoScalingGroup (deleteOpts exampleData),
                   Failed (AWSError ''ValidationError'' ''not valid''))]\<rparr>)"
    by (simp add: retryableDeleteError_def reportsNotFound_def)
  from t3 have c: "deleteGroup \<lparr>drainAttempts = 3, deleteAttempts = 3, goneAttempts = 3\<rparr>
     (exampleData,
      \<lparr>script = [Failed (AWSError ''ResourceInUse'' ''in use''),
                 Failed (AWSError ''ScalingActivityInProgress'' ''scaling''),
                 Failed (AWSError ''ResourceInUse'' ''still in use''),
                 Succeeded],
       trace = []\<rparr>)
   = Some (Some (Errorf ''Error deleting autoscaling group: %s''
                  [ErrArg (ApiError (AWSError ''ResourceInUse'' ''still in use''))]),
       exampleData,
       \<lparr>script = [Succeeded],
        trace = [(DeleteAutoScalingGroup (deleteOpts exampleData),
                   Failed (AWSError ''ResourceInUse'' ''in use'')),
                 (DeleteAutoScalingGroup (deleteOpts exampleData),
                   Failed (AWSError ''ScalingActivityInProgress'' ''scaling'')),
                 (DeleteAutoScalingGroup (deleteOpts exampleData),
                   Failed (AWSError ''ResourceInUse'' ''still in use''))]\<rparr>)"
    by simp
  from a b c show ?thesis by (intro conjI)
qed

subsection \<open>Drain before delete\<close>

lemma drainPoll_step:
  assumes "drainPoll (d, w) = Some (x, d', w')"
  shows "\<exists>r. trace w' = trace w @ [(DescribeAutoScalingGroups [Id d], r)] \<and> attrs d' = attrs d
     \<and> (x = None \<longrightarrow> observedInstances (Id d) r = Some 0 \<or> reportsNotFound (Id d) r)
     \<and> (x \<noteq> None \<longrightarrow> d' = d)"
proof -
  from assms obtain y w1 where g: "getAwsAutoscalingGroup (Id d) w = Some (y, w1)"
    by (auto simp: drainPoll_def split: option.splits)
  from getAws_step[OF g] obtain r where r:
    "trace w1 = trace w @ [(DescribeAutoScalingGroups [Id d], r)]"
    "y = Inr None \<longrightarrow> reportsNotFound (Id d) r"
    "\<forall>g. y = Inr (Some g) \<longrightarrow> observedInstances (Id d) r = Some (length (Group.Instances g))"
    by blast
  from assms g r show ?thesis
    by (intro exI[of _ r])
       (auto simp: drainPoll_def split: sum.splits option.splits if_splits)
qed

lemma Retry_drainPoll:
  "Retry n drainPoll (d, w) = Some (err, d', w') \<Longrightarrow>
   \<exists>polls. trace w' = trace w @ polls
     \<and> (\<forall>p \<in> set polls. fst p = DescribeAutoScalingGroups [Id d])
     \<and> attrs d' = attrs d
     \<and> (err = None \<longrightarrow> polls \<noteq> [] \<and>
           (observedInstances (Id d) (snd (last polls)) = Some 0
            \<or> reportsNotFound (Id d) (snd (last polls))))
     \<and> (err \<noteq> None \<longrightarrow> d' = d)"
proof (induction n arbitrary: w)
  case 0
  then show ?case by auto
next
  case (Suc n)
  from Suc.prems obtain x d1 w1 where p: "drainPoll (d, w) = Some (x, d1, w1)"
    by (auto split: option.splits)
  from drainPoll_step[OF p] obtain r where r:
    "trace w1 = trace w @ [(DescribeAutoScalingGroups [Id d], r)]" "attrs d1 = attrs d"
    "x = None \<longrightarrow> observedInstances (Id d) r = Some 0 \<or> reportsNotFound (Id d) r"
    "x \<noteq> None \<longrightarrow> d1 = d"
    by blast
  show ?case
  proof (cases x)
    case None
    with p Suc.prems have "err = None" "d' = d1" "w' = w1" by simp_all
    with r None show ?thesis
      by (intro exI[of _ "[(DescribeAutoScalingGroups [Id d], r)]"]) simp
  next
    case (Some re)
    with r have d1: "d1 = d" by simp
    show ?thesis
    proof (cases re)
      case (NonRetryableError e)
      with p Some Suc.prems have "err = Some e" "d' = d1" "w' = w1" by simp_all
      with r d1 show ?thesis
        by (intro exI[of _ "[(DescribeAutoScalingGroups [Id d], r)]"]) simp
    next
      case (RetryableError e)
      show ?thesis
      proof (cases "n = 0")
        case True
        with p Some RetryableError Suc.prems have "err = Some e" "d' = d1" "w' = w1"
          by simp_all
        with r d1 show ?thesis
          by (intro exI[of _ "[(DescribeAutoScalingGroups [Id d], r)]"]) simp
      next
        case False
        with p Some RetryableError Suc.prems d1
        have "Retry n drainPoll (d, w1) = Some (err, d', w')" by simp
        from Suc.IH[OF this] obtain polls where polls:
          "trace w' = trace w1 @ polls"
          "\<forall>p \<in> set polls. fst p = DescribeAutoScalingGroups [Id d]"
          "attrs d' = attrs d"
          "err = None \<longrightarrow> polls \<noteq> [] \<and>
             (observedInstances (Id d) (snd (last polls)) = Some 0
              \<or> reportsNotFound (Id d) (snd (last polls)))"
          "err \<noteq> None \<longrightarrow> d' = d" by blast
        with r(1) show ?thesis
          by (intro exI[of _ "(DescribeAutoScalingGroups [Id d], r) # polls"]) auto
      qed
    qed
  qed
qed

lemma Drain_trace:
  assumes "\<not> force_delete (attrs d)"
    and "resourceAwsAutoscalingGroupDrain n (d, w) = Some (res, d', w')"
  shows "\<exists>u polls. trace w' = trace w @ (UpdateAutoScalingGroup (drainOpts d), u) # polls
     \<and> (\<forall>p \<in> set polls. fst p = DescribeAutoScalingGroups [Id d])
     \<and> attrs d' = attrs d
     \<and> (res = None \<longrightarrow> u = Succeeded \<and> polls \<noteq> [] \<and>
           (observedInstances (Id d) (snd (last polls)) = Some 0
            \<or> reportsNotFound (Id d) (snd (last polls))))"
proof -
  from assms obtain u w1 where a: "api (UpdateAutoScalingGroup (drainOpts d)) w = Some (u, w1)"
    by (auto simp: resourceAwsAutoscalingGroupDrain_def split: option.splits)
  note tr = api_Some[OF a]
  show ?thesis
  proof (cases u)
    case (Failed e)
    with assms a have "res \<noteq> None" "d' = d" "w' = w1"
      by (auto simp: resourceAwsAutoscalingGroupDrain_def)
    with tr show ?thesis by (intro exI[of _ u] exI[of _ "[]"]) simp
  next
    case (Groups gs)
    with assms a show ?thesis by (simp add: resourceAwsAutoscalingGroupDrain_def)
  next
    case (Page items tok)
    with assms a show ?thesis by (simp add: resourceAwsAutoscalingGroupDrain_def)
  next
    case Succeeded
    with assms a obtain err d2 w2 where rt: "Retry n drainPoll (d, w1) = Some (err, d2, w2)"
      by (auto simp: resourceAwsAutoscalingGroupDrain_def split: option.splits)
    from Retry_drainPoll[OF rt] obtain polls where polls:
      "trace w2 = trace w1 @ polls"
      "\<forall>p \<in> set polls. fst p = DescribeAutoScalingGroups [Id d]"
      "attrs d2 = attrs d"
      "err = None \<longrightarrow> polls \<noteq> [] \<and>
           (observedInstances (Id d) (snd (last polls)) = Some 0
            \<or> reportsNotFound (Id d) (snd (last polls)))"
      "err \<noteq> None \<longrightarrow> d2 = d" by blast
    show ?thesis
    proof (cases "isResourceTimeoutError err")
      case False
      with assms a Succeeded rt have "d' = d2" "w' = w2" "res = None \<longrightarrow> err = None"
        by (auto simp: resourceAwsAutoscalingGroupDrain_def split: option.splits)
      with tr polls Succeeded show ?thesis
        by (intro exI[of _ u] exI[of _ polls]) simp
    next
      case True
      then have d2: "d2 = d" using polls(5) by (simp add: isResourceTimeoutError_def)
      from assms a Succeeded rt True d2 obtain y w3 where
        g: "getAwsAutoscalingGroup (Id d) w2 = Some (y, w3)"
        by (auto simp: resourceAwsAutoscalingGroupDrain_def split: option.splits)
      from getAws_step[OF g] obtain r where r:
        "trace w3 = trace w2 @ [(DescribeAutoScalingGroups [Id d], r)]"
        "y = Inr None \<longrightarrow> reportsNotFound (Id d) r"
        "\<forall>g. y = Inr (Some g) \<longrightarrow> observedInstances (Id d) r = Some (length (Group.Instances g))"
        by blast
      from assms a Succeeded rt True d2 g have fin: "d' = d" "w' = w3"
        "res = None \<longrightarrow> y = Inr None \<or> (\<exists>g. y = Inr (Some g) \<and> length (Group.Instances g) = 0)"
        by (auto simp: resourceAwsAutoscalingGroupDrain_def
            split: option.splits sum.splits if_splits)
      with tr polls(1,2) r Succeeded show ?thesis
        by (intro exI[of _ u] exI[of _ "polls @ [(DescribeAutoScalingGroups [Id d], r)]"]) auto
    qed
  qed
qed


lemma Retry_appends:
  assumes f: "\<And>s x s'. f s = Some (x, s') \<Longrightarrow> \<exists>steps. trace (snd s') = trace (snd s) @ steps"
  shows "Retry n f s = Some (e, s') \<Longrightarrow> \<exists>steps. trace (snd s') = trace (snd s) @ steps"
proof (induction n arbitrary: s)
  case 0
  then show ?case by auto
next
  case (Suc n)
  from Suc.prems obtain x s1 where p: "f s = Some (x, s1)" by (auto split: option.splits)
  from f[OF p] obtain st1 where st1: "trace (snd s1) = trace (snd s) @ st1" by blast
  show ?case
  proof (cases x)
    case None
    with p Suc.prems st1 show ?thesis by auto
  next
    case (Some re)
    show ?thesis
    proof (cases re)
      case (NonRetryableError e')
      with p Some Suc.prems st1 show ?thesis by auto
    next
      case (RetryableError e')
      show ?thesis
      proof (cases "n = 0")
        case True
        with p Some RetryableError Suc.prems st1 show ?thesis by auto
      next
        case False
        with p Some RetryableError Suc.prems have "Retry n f s1 = Some (e, s')" by simp
        from Suc.IH[OF this] st1 show ?thesis by auto
      qed
    qed
  qed
qed

lemma gonePoll_appends:
  "gonePoll s = Some (x, s') \<Longrightarrow> \<exists>steps. trace (snd s') = trace (snd s) @ steps"
  by (cases s) (auto simp: gonePoll_def split: option.splits sum.splits dest!: getAws_step)

lemma waitUntilDeleted_appends:
  assumes "waitUntilDeleted n (d, w) = Some (res, d', w')"
  shows "\<exists>more. trace w' = trace w @ more"
proof -
  from assms obtain err d1 w1 where rt: "Retry n gonePoll (d, w) = Some (err, d1, w1)"
    by (auto simp: waitUntilDeleted_def split: option.splits)
  from rt have "\<exists>steps. trace (snd (d1, w1)) = trace (snd (d, w)) @ steps"
    by (rule Retry_appends[rotated]) (rule gonePoll_appends)
  then obtain st where st: "trace w1 = trace w @ st" by auto
  show ?thesis
  proof (cases "isResourceTimeoutError err")
    case False
    with assms rt have "w' = w1" by (auto simp: waitUntilDeleted_def split: option.splits)
    with st show ?thesis by blast
  next
    case True
    with assms rt obtain y where "getAwsAutoscalingGroup (Id d1) w1 = Some (y, w')"
      by (auto simp: waitUntilDeleted_def split: option.splits sum.splits)
    from getAws_step[OF this] st show ?thesis by auto
  qed
qed

lemma deleteAttempt_step:
  "deleteAttempt opts (d, w) = Some (x, d1, w1) \<Longrightarrow>
   d1 = d \<and> (\<exists>r. trace w1 = trace w @ [(DeleteAutoScalingGroup opts, r)])"
  by (auto simp: deleteAttempt_def split: option.splits response.splits api_error.splits
      if_splits dest!: api_Some)

lemma Retry_deleteAttempt_trace:
  "Retry n (deleteAttempt opts) (d, w) = Some (err, d1, w1) \<Longrightarrow>
   d1 = d \<and> (\<exists>steps. trace w1 = trace w @ steps
     \<and> (steps = [] \<longrightarrow> err = Some TimeoutError)
     \<and> (steps \<noteq> [] \<longrightarrow> fst (hd steps) = DeleteAutoScalingGroup opts))"
proof (induction n arbitrary: w)
  case 0
  then show ?case by auto
next
  case (Suc n)
  from Suc.prems obtain x d2 w2 where p: "deleteAttempt opts (d, w) = Some (x, d2, w2)"
    by (auto split: option.splits)
  from deleteAttempt_step[OF p] obtain r where d2: "d2 = d"
    and r: "trace w2 = trace w @ [(DeleteAutoScalingGroup opts, r)]" by blast
  show ?case
  proof (cases x)
    case None
    with p Suc.prems d2 r show ?thesis by auto
  next
    case (Some re)
    show ?thesis
    proof (cases re)
      case (NonRetryableError e')
      with p Some Suc.prems d2 r show ?thesis by auto
    next
      case (RetryableError e')
      show ?thesis
      proof (cases "n = 0")
        case True
        with p Some RetryableError Suc.prems d2 r show ?thesis by auto
      next
        case False
        with p Some RetryableError Suc.prems d2
        have "Retry n (deleteAttempt opts) (d, w2) = Some (err, d1, w1)" by simp
        from Suc.IH[OF this] obtain steps where "d1 = d" "trace w1 = trace w2 @ steps" by blast
        with r show ?thesis by auto
      qed
    qed
  qed
qed

lemma deleteGroup_first:
  assumes "deleteGroup t (d, w) = Some (res, d', w')"
  shows "\<exists>r more. trace w' = trace w @ (DeleteAutoScalingGroup (deleteOpts d), r) # more"
proof -
  let ?opts = "deleteOpts d"
  from assms obtain err d1 w1 where
    rt: "Retry (deleteAttempts t) (deleteAttempt ?opts) (d, w) = Some (err, d1, w1)"
    by (auto simp: deleteGroup_def deleteOpts_def Let_def split: option.splits)
  from Retry_deleteAttempt_trace[OF rt] obtain steps where d1: "d1 = d"
    and steps: "trace w1 = trace w @ steps" "steps = [] \<longrightarrow> err = Some TimeoutError"
      "steps \<noteq> [] \<longrightarrow> fst (hd steps) = DeleteAutoScalingGroup ?opts" by blast
  have "\<exists>more. trace w' = trace w1 @ more
          \<and> (err = Some TimeoutError \<longrightarrow> more \<noteq> [] \<and> fst (hd more) = DeleteAutoScalingGroup ?opts)"
  proof (cases "isResourceTimeoutError err")
    case False
    then have ne: "err \<noteq> Some TimeoutError" by (simp add: isResourceTimeoutError_def)
    show ?thesis
    proof (cases err)
      case None
      with assms rt False d1 have "waitUntilDeleted (goneAttempts t) (d, w1) = Some (res, d', w')"
        by (simp add: deleteGroup_def deleteOpts_def Let_def)
      from waitUntilDeleted_appends[OF this] None show ?thesis by auto
    next
      case (Some e)
      with assms rt False have "w' = w1"
        by (auto simp: deleteGroup_def deleteOpts_def Let_def)
      with ne show ?thesis by simp
    qed
  next
    case True
    with assms rt obtain r w2 where a: "api (DeleteAutoScalingGroup ?opts) w1 = Some (r, w2)"
      by (auto simp: deleteGroup_def deleteOpts_def Let_def split: option.splits)
    note tr = api_Some[OF a]
    have "\<exists>more. trace w' = trace w2 @ more"
    proof (cases r)
      case (Failed e)
      with assms rt True a have "w' = w2"
        by (auto simp: deleteGroup_def deleteOpts_def Let_def split: if_splits)
      then show ?thesis by simp
    next
      case Succeeded
      with assms rt True a d1 have "waitUntilDeleted (goneAttempts t) (d, w2) = Some (res, d', w')"
        by (simp add: deleteGroup_def deleteOpts_def Let_def)
      from waitUntilDeleted_appends[OF this] show ?thesis .
    next
      case (Groups gs)
      with assms rt True a show ?thesis by (simp add: deleteGroup_def deleteOpts_def Let_def)
    next
      case (Page items tok)
      with assms rt True a show ?thesis by (simp add: deleteGroup_def deleteOpts_def Let_def)
    qed
    with tr show ?thesis by auto
  qed
  then obtain more where more: "trace w' = trace w1 @ more"
    "err = Some TimeoutError \<longrightarrow> more \<noteq> [] \<and> fst (hd more) = DeleteAutoScalingGroup ?opts" by blast
  show ?thesis
  proof (cases steps)
    case Nil
    with steps more obtain r more' where "more = (DeleteAutoScalingGroup ?opts, r) # more'"
      by (cases more) auto
    with Nil steps more show ?thesis by auto
  next
    case (Cons p ps)
    with steps obtain r where "p = (DeleteAutoScalingGroup ?opts, r)" by (cases p) auto
    with Cons steps more show ?thesis by auto
  qed
qed


text \<open>
  C5, as amended. Let the first describe of a delete show the group with instances or
  with a positive desired capacity. Without \<open>force_delete\<close>, the next call is the update
  to min = max = desired = 0, followed by describe polls only; a delete request comes,
  if at all, after the update has succeeded and after a poll that showed the group with
  no instance or reported that the group is not found. When no delete request is made,
  the delete has returned an error. With \<open>force_delete\<close>, the delete request follows the
  first describe at once.
\<close>

theorem group_drained_before_delete_request:
  assumes run: "resourceAwsAutoscalingGroupDelete t (d, w) = Some (res, d', w')"
    and sc: "script w = Groups gs # rest"
    and g: "find (\<lambda>asc. Group.AutoScalingGroupName asc = Id d) gs = Some g"
    and need: "length (Group.Instances g) > 0 \<or> Group.DesiredCapacity g > 0"
  shows "(\<not> force_delete (attrs d) \<longrightarrow>
           (\<exists>u polls more.
              trace w' = trace w @ (DescribeAutoScalingGroups [Id d], Groups gs)
                 # (UpdateAutoScalingGroup (drainOpts d), u) # polls @ more
              \<and> UpdateAutoScalingGroupInput.MinSize (drainOpts d) = Some 0
              \<and> UpdateAutoScalingGroupInput.MaxSize (drainOpts d) = Some 0
              \<and> UpdateAutoScalingGroupInput.DesiredCapacity (drainOpts d) = Some 0
              \<and> (\<forall>p \<in> set polls. fst p = DescribeAutoScalingGroups [Id d])
              \<and> (more = [] \<longrightarrow> res \<noteq> None)
              \<and> (more \<noteq> [] \<longrightarrow>
                   (\<exists>opts. fst (hd more) = DeleteAutoScalingGroup opts)
                   \<and> u = Succeeded \<and> polls \<noteq> []
                   \<and> (observedInstances (Id d) (snd (last polls)) = Some 0
                      \<or> reportsNotFound (Id d) (snd (last polls))))))
       \<and> (force_delete (attrs d) \<longrightarrow>
           (\<exists>r more.
              trace w' = trace w @ (DescribeAutoScalingGroups [Id d], Groups gs)
                 # (DeleteAutoScalingGroup (deleteOpts d), r) # more))"
proof (intro conjI impI)
  let ?w1 = "\<lparr>script = rest, trace = trace w @ [(DescribeAutoScalingGroups [Id d], Groups gs)]\<rparr>"
  from sc g have ga: "getAwsAutoscalingGroup (Id d) w = Some (Inr (Some g), ?w1)"
    by (simp add: getAws_eval)
  {
    assume force: "force_delete (attrs d)"
    with run ga need have "deleteGroup t (d, ?w1) = Some (res, d', w')"
      by (auto simp: resourceAwsAutoscalingGroupDelete_def resourceAwsAutoscalingGroupDrain_def)
    from deleteGroup_first[OF this]
    show "\<exists>r more.
              trace w' = trace w @ (DescribeAutoScalingGroups [Id d], Groups gs)
                 # (DeleteAutoScalingGroup (deleteOpts d), r) # more"
      by auto
  }
  {
    assume noforce: "\<not> force_delete (attrs d)"
    from run ga need obtain dres d2 w2 where
      dr: "resourceAwsAutoscalingGroupDrain (drainAttempts t) (d, ?w1) = Some (dres, d2, w2)"
      by (auto simp: resourceAwsAutoscalingGroupDelete_def split: option.splits)
    from Drain_trace[OF noforce dr] obtain u polls where dt:
      "trace w2 = trace ?w1 @ (UpdateAutoScalingGroup (drainOpts d), u) # polls"
      "\<forall>p \<in> set polls. fst p = DescribeAutoScalingGroups [Id d]"
      "dres = None \<longrightarrow> u = Succeeded \<and> polls \<noteq> [] \<and>
           (observedInstances (Id d) (snd (last polls)) = Some 0
            \<or> reportsNotFound (Id d) (snd (last polls)))"
      by blast
    have zero: "UpdateAutoScalingGroupInput.MinSize (drainOpts d) = Some 0"
      "UpdateAutoScalingGroupInput.MaxSize (drainOpts d) = Some 0"
      "UpdateAutoScalingGroupInput.DesiredCapacity (drainOpts d) = Some 0"
      by (simp_all add: drainOpts_def)
    have "\<exists>more. trace w' = trace w2 @ more \<and> (more = [] \<longrightarrow> res \<noteq> None)
            \<and> (more \<noteq> [] \<longrightarrow> dres = None \<and> (\<exists>opts. fst (hd more) = DeleteAutoScalingGroup opts))"
    proof (cases dres)
      case (Some e)
      with run ga need dr have "res = Some e" "w' = w2"
        by (auto simp: resourceAwsAutoscalingGroupDelete_def)
      then show ?thesis by simp
    next
      case None
      with run ga need dr have "deleteGroup t (d2, w2) = Some (res, d', w')"
        by (auto simp: resourceAwsAutoscalingGroupDelete_def)
      from deleteGroup_first[OF this] None show ?thesis by auto
    qed
    then obtain more where more: "trace w' = trace w2 @ more" "more = [] \<longrightarrow> res \<noteq> None"
      "more \<noteq> [] \<longrightarrow> dres = None \<and> (\<exists>opts. fst (hd more) = DeleteAutoScalingGroup opts)"
      by blast
    from dt(1) more(1) have tr: "trace w' = trace w @ (DescribeAutoScalingGroups [Id d], Groups gs)
                 # (UpdateAutoScalingGroup (drainOpts d), u) # polls @ more" by simp
    from dt(3) more(3) have after: "more \<noteq> [] \<longrightarrow>
                   (\<exists>opts. fst (hd more) = DeleteAutoScalingGroup opts)
                   \<and> u = Succeeded \<and> polls \<noteq> []
                   \<and> (observedInstances (Id d) (snd (last polls)) = Some 0
                      \<or> reportsNotFound (Id d) (snd (last polls)))" by blast
    show "\<exists>u polls more.
              trace w' = trace w @ (DescribeAutoScalingGroups [Id d], Groups gs)
                 # (UpdateAutoScalingGroup (drainOpts d), u) # polls @ more
              \<and> UpdateAutoScalingGroupInput.MinSize (drainOpts d) = Some 0
              \<and> UpdateAutoScalingGroupInput.MaxSize (drainOpts d) = Some 0
              \<and> UpdateAutoScalingGroupInput.DesiredCapacity (drainOpts d) = Some 0
              \<and> (\<forall>p \<in> set polls. fst p = DescribeAutoScalingGroups [Id d])
              \<and> (more = [] \<longrightarrow> res \<noteq> None)
              \<and> (more \<noteq> [] \<longrightarrow>
                   (\<exists>opts. fst (hd more) = DeleteAutoScalingGroup opts)
                   \<and> u = Succeeded \<and> polls \<noteq> []
                   \<and> (observedInstances (Id d) (snd (last polls)) = Some 0
                      \<or> reportsNotFound (Id d) (snd (last polls))))"
      by (rule exI[of _ u], rule exI[of _ polls], rule exI[of _ more])
         (intro conjI tr zero dt(2) more(2) after)
  }
qed


theorem group_drained_before_delete_request_witness:
  "let T = [(DescribeAutoScalingGroups [''asg''], Groups [exampleGroup [''i-1'', ''i-2'']]),
            (UpdateAutoScalingGroup (drainOpts exampleData), Succeeded),
            (DescribeAutoScalingGroups [''asg''], Groups [exampleGroup [''i-2'']]),
            (DescribeAutoScalingGroups [''asg''], Groups [exampleGroup []]),
            (DeleteAutoScalingGroup (deleteOpts exampleData),
               Failed (AWSError ''ScalingActivityInProgress'' ''scaling'')),
            (DeleteAutoScalingGroup (deleteOpts exampleData), Succeeded),
            (DescribeAutoScalingGroups [''asg''], Groups [])]
   in resourceAwsAutoscalingGroupDelete
        \<lparr>drainAttempts = 3, deleteAttempts = 3, goneAttempts = 3\<rparr>
        (exampleData, \<lparr>script = map snd T, trace = []\<rparr>)
      = Some (None, exampleData, \<lparr>script = [], trace = T\<rparr>)
    \<and> (\<exists>u polls more.
          T = [] @ (DescribeAutoScalingGroups [Id exampleData],
                     Groups [exampleGroup [''i-1'', ''i-2'']])
                 # (UpdateAutoScalingGroup (drainOpts exampleData), u) # polls @ more
          \<and> more \<noteq> [] \<and> polls \<noteq> []
          \<and> (observedInstances (Id exampleData) (snd (last polls)) = Some 0
              \<or> reportsNotFound (Id exampleData) (snd (last polls))))"
proof -
  let ?T = "[(DescribeAutoScalingGroups [''asg''], Groups [exampleGroup [''i-1'', ''i-2'']]),
            (UpdateAutoScalingGroup (drainOpts exampleData), Succeeded),
            (DescribeAutoScalingGroups [''asg''], Groups [exampleGroup [''i-2'']]),
            (DescribeAutoScalingGroups [''asg''], Groups [exampleGroup []]),
            (DeleteAutoScalingGroup (deleteOpts exampleData),
               Failed (AWSError ''ScalingActivityInProgress'' ''scaling'')),
            (DeleteAutoScalingGroup (deleteOpts exampleData), Succeeded),
            (DescribeAutoScalingGroups [''asg''], Groups [])]"
  let ?w = "\<lparr>script = map snd ?T, trace = []\<rparr>"
  have run: "resourceAwsAutoscalingGroupDelete
        \<lparr>drainAttempts = 3, deleteAttempts = 3, goneAttempts = 3\<rparr> (exampleData, ?w)
      = Some (None, exampleData, \<lparr>script = [], trace = ?T\<rparr>)"
    by (simp add: resourceAwsAutoscalingGroupDelete_def resourceAwsAutoscalingGroupDrain_def
        deleteGroup_def deleteAttempt_def waitUntilDeleted_def gonePoll_def drainPoll_def
        getAwsAutoscalingGroup_def api_def exampleData_def exampleConfig_def exampleGroup_def
        isResourceTimeoutError_def numeral_3_eq_3 Let_def)
  have sc: "script ?w = Groups [exampleGroup [''i-1'', ''i-2'']]
      # map snd (tl ?T)" by simp
  have g: "find (\<lambda>asc. Group.AutoScalingGroupName asc = Id exampleData)
             [exampleGroup [''i-1'', ''i-2'']] = Some (exampleGroup [''i-1'', ''i-2''])"
    by (simp add: exampleGroup_def exampleData_def)
  have need: "length (Group.Instances (exampleGroup [''i-1'', ''i-2''])) > 0
      \<or> Group.DesiredCapacity (exampleGroup [''i-1'', ''i-2'']) > 0"
    by (simp add: exampleGroup_def)
  have nf: "\<not> force_delete (attrs exampleData)"
    by (simp add: exampleData_def exampleConfig_def)
  from group_drained_before_delete_request[OF run sc g need] nf
  obtain u polls more where
    tr: "?T = [] @ (DescribeAutoScalingGroups [Id exampleData],
                     Groups [exampleGroup [''i-1'', ''i-2'']])
                 # (UpdateAutoScalingGroup (drainOpts exampleData), u) # polls @ more"
    and e: "more = [] \<longrightarrow> (None :: error option) \<noteq> None"
    and a: "more \<noteq> [] \<longrightarrow> (\<exists>opts. fst (hd more) = DeleteAutoScalingGroup opts)
             \<and> u = Succeeded \<and> polls \<noteq> []
             \<and> (observedInstances (Id exampleData) (snd (last polls)) = Some 0
                 \<or> reportsNotFound (Id exampleData) (snd (last polls)))"
    by auto
  from e have "more \<noteq> []" by auto
  with tr a have "\<exists>u polls more.
          ?T = [] @ (DescribeAutoScalingGroups [Id exampleData],
                     Groups [exampleGroup [''i-1'', ''i-2'']])
                 # (UpdateAutoScalingGroup (drainOpts exampleData), u) # polls @ more
          \<and> more \<noteq> [] \<and> polls \<noteq> []
          \<and> (observedInstances (Id exampleData) (snd (last polls)) = Some 0
              \<or> reportsNotFound (Id exampleData) (snd (last polls)))"
    by blast
  with run show ?thesis unfolding Let_def by (rule conjI)
qed

text \<open>
  The claim as stated asks for an observed instance count of 0 before the delete
  request. In the run below the group shows 3 instances, the update succeeds, and the
  first drain poll reports the group as not found: the drain ends (\<^verbatim>\<open>d.SetId("")\<close>),
  and the delete request is made, though no response has shown an instance count of 0.
\<close>

theorem group_drained_before_delete_request_counterexample:
  "resourceAwsAutoscalingGroupDelete \<lparr>drainAttempts = 3, deleteAttempts = 3, goneAttempts = 3\<rparr>
     (exampleData,
      \<lparr>script = [Groups [exampleGroup [''i-1'', ''i-2'', ''i-3'']],
                 Succeeded,
                 Failed (AWSError ''InvalidGroup.NotFound'' ''no such group''),
                 Failed (AWSError ''ValidationError'' ''no name'')],
       trace = []\<rparr>)
   = Some (Some (Errorf ''Error deleting autoscaling group: %s''
                  [ErrArg (ApiError (AWSError ''ValidationError'' ''no name''))]),
       exampleData\<lparr>Id := []\<rparr>,
       \<lparr>script = [],
        trace = [(DescribeAutoScalingGroups [''asg''],
                   Groups [exampleGroup [''i-1'', ''i-2'', ''i-3'']]),
                 (UpdateAutoScalingGroup (drainOpts exampleData), Succeeded),
                 (DescribeAutoScalingGroups [''asg''],
                   Failed (AWSError ''InvalidGroup.NotFound'' ''no such group'')),
                 (DeleteAutoScalingGroup (deleteOpts (exampleData\<lparr>Id := []\<rparr>)),
                   Failed (AWSError ''ValidationError'' ''no name''))]\<rparr>)
   \<and> \<not> force_delete (attrs exampleData)
   \<and> observedInstances ''asg'' (Groups [exampleGroup [''i-1'', ''i-2'', ''i-3'']]) = Some 3
   \<and> observedInstances ''asg'' (Failed (AWSError ''InvalidGroup.NotFound'' ''no such group''))
     = None"
  by (simp add: resourceAwsAutoscalingGroupDelete_def resourceAwsAutoscalingGroupDrain_def
      deleteGroup_def deleteAttempt_def drainPoll_def getAwsAutoscalingGroup_def api_def
      exampleData_def exampleConfig_def exampleGroup_def isResourceTimeoutError_def
      observedInstances_def numeral_3_eq_3 Let_def)


subsection \<open>Reading the termination policies\<close>

text \<open>
  C8. A read that finds the group succeeds. When the configuration has no termination
  policies and the observed list is exactly \<open>Default\<close>, it reports the empty list; for
  every other observed list it reports that list as it is, whatever the configuration
  has.
\<close>

theorem read_elides_default_termination_policy:
  assumes "getAwsAutoscalingGroup (Id d) w = Some (Inr (Some g), w')"
  shows "\<exists>d'. resourceAwsAutoscalingGroupRead (d, w) = Some (None, d', w')
      \<and> (\<not> GetOk_list (termination_policies (attrs d))
           \<and> Group.TerminationPolicies g = [''Default'']
         \<longrightarrow> termination_policies (attrs d') = [])
      \<and> (Group.TerminationPolicies g \<noteq> [''Default'']
         \<longrightarrow> termination_policies (attrs d') = Group.TerminationPolicies g)"
proof -
  have single: "(length xs = Suc 0 \<and> hd xs = ''Default'') = (xs = [''Default''])" for xs :: "string list"
    by (cases xs) auto
  from assms show ?thesis
    by (auto simp: resourceAwsAutoscalingGroupRead_def Let_def flattenStringList_def single)
qed


theorem read_elides_default_termination_policy_witness:
  "(\<exists>d'. resourceAwsAutoscalingGroupRead
           (exampleData, \<lparr>script = [Groups [exampleGroup [''i-1'']]], trace = []\<rparr>)
         = Some (None, d',
             \<lparr>script = [],
              trace = [(DescribeAutoScalingGroups [''asg''], Groups [exampleGroup [''i-1'']])]\<rparr>)
         \<and> termination_policies (attrs d') = [])
   \<and> (\<exists>d'. resourceAwsAutoscalingGroupRead
           (exampleData,
            \<lparr>script = [Groups [(exampleGroup [''i-1''])
                         \<lparr>TerminationPolicies := [''Default'', ''OldestInstance'']\<rparr>]],
             trace = []\<rparr>)
         = Some (None, d',
             \<lparr>script = [],
              trace = [(DescribeAutoScalingGroups [''asg''],
                        Groups [(exampleGroup [''i-1''])
                         \<lparr>TerminationPolicies := [''Default'', ''OldestInstance'']\<rparr>])]\<rparr>)
         \<and> termination_policies (attrs d') = [''Default'', ''OldestInstance''])"
proof -
  have g1: "getAwsAutoscalingGroup (Id exampleData)
              \<lparr>script = [Groups [exampleGroup [''i-1'']]], trace = []\<rparr>
            = Some (Inr (Some (exampleGroup [''i-1''])),
                \<lparr>script = [],
                 trace = [(DescribeAutoScalingGroups [''asg''],
                           Groups [exampleGroup [''i-1'']])]\<rparr>)"
    by (simp add: getAwsAutoscalingGroup_def api_def exampleData_def exampleGroup_def)
  have g2: "getAwsAutoscalingGroup (Id exampleData)
              \<lparr>script = [Groups [(exampleGroup [''i-1''])
                         \<lparr>TerminationPolicies := [''Default'', ''OldestInstance'']\<rparr>]],
               trace = []\<rparr>
            = Some (Inr (Some ((exampleGroup [''i-1''])
                         \<lparr>TerminationPolicies := [''Default'', ''OldestInstance'']\<rparr>)),
                \<lparr>script = [],
                 trace = [(DescribeAutoScalingGroups [''asg''],
                           Groups [(exampleGroup [''i-1''])
                         \<lparr>TerminationPolicies := [''Default'', ''OldestInstance'']\<rparr>])]\<rparr>)"
    by (simp add: getAwsAutoscalingGroup_def api_def exampleData_def exampleGroup_def)
  from read_elides_default_termination_policy[OF g1]
  have a: "\<exists>d'. resourceAwsAutoscalingGroupRead
           (exampleData, \<lparr>script = [Groups [exampleGroup [''i-1'']]], trace = []\<rparr>)
         = Some (None, d',
             \<lparr>script = [],
              trace = [(DescribeAutoScalingGroups [''asg''], Groups [exampleGroup [''i-1'']])]\<rparr>)
         \<and> termination_policies (attrs d') = []"
    by (simp add: GetOk_list_def exampleData_def exampleConfig_def exampleGroup_def)
  from read_elides_default_termination_policy[OF g2]
  have b: "\<exists>d'. resourceAwsAutoscalingGroupRead
           (exampleData,
            \<lparr>script = [Groups [(exampleGroup [''i-1''])
                         \<lparr>TerminationPolicies := [''Default'', ''OldestInstance'']\<rparr>]],
             trace = []\<rparr>)
         = Some (None, d',
             \<lparr>script = [],
              trace = [(DescribeAutoScalingGroups [''asg''],
                        Groups [(exampleGroup [''i-1''])
                         \<lparr>TerminationPolicies := [''Default'', ''OldestInstance'']\<rparr>])]\<rparr>)
         \<and> termination_policies (attrs d') = [''Default'', ''OldestInstance'']"
    by (simp add: exampleGroup_def)
  from a b show ?thesis by (rule conjI)
qed


subsection \<open>Create: the launch sources\<close>

text \<open>
  C1, as amended. When none of the three launch sources is set, the create fails with
  the input-validation error and makes no call. When at least one is set (one, or more
  than one) and the launch template, if set, expands without error, the request is
  built and carries every launch source that is set. When the expansion of the launch
  template fails, its error is returned and no call is made.
\<close>

theorem create_requires_launch_source:
  "(expandAutoScalingMixedInstancesPolicy (mixed_instances_policy (attrs d)) = None
      \<and> \<not> GetOk_string (launch_configuration (attrs d))
      \<and> \<not> GetOk_list (Config.launch_template (attrs d))
     \<longrightarrow> createOpts h d = Inl noLaunchSourceError
        \<and> (\<exists>d1. resourceAwsAutoscalingGroupCreate h n (d, w)
                  = Some (Some noLaunchSourceError, d1, w)))
   \<and> (\<not> (expandAutoScalingMixedInstancesPolicy (mixed_instances_policy (attrs d)) = None
          \<and> \<not> GetOk_string (launch_configuration (attrs d))
          \<and> \<not> GetOk_list (Config.launch_template (attrs d)))
      \<and> (GetOk_list (Config.launch_template (attrs d))
           \<longrightarrow> expandLaunchTemplateSpecification h (Config.launch_template (attrs d))
               = (lt, None))
     \<longrightarrow> (\<exists>co. createOpts h d = Inr co
          \<and> CreateAutoScalingGroupInput.LaunchConfigurationName co
              = (if GetOk_string (launch_configuration (attrs d))
                 then Some (launch_configuration (attrs d)) else None)
          \<and> CreateAutoScalingGroupInput.LaunchTemplate co
              = (if GetOk_list (Config.launch_template (attrs d)) then lt else None)
          \<and> CreateAutoScalingGroupInput.MixedInstancesPolicy co
              = expandAutoScalingMixedInstancesPolicy (mixed_instances_policy (attrs d))))
   \<and> (GetOk_list (Config.launch_template (attrs d))
      \<and> expandLaunchTemplateSpecification h (Config.launch_template (attrs d)) = (lt, Some e)
     \<longrightarrow> createOpts h d = Inl e
        \<and> (\<exists>d1. resourceAwsAutoscalingGroupCreate h n (d, w) = Some (Some e, d1, w)))"
  by (auto simp: createOpts_def createOptsWith_def resourceAwsAutoscalingGroupCreate_def Let_def)


theorem create_requires_launch_source_witness:
  "createOpts exampleHelpers
       (exampleData\<lparr>attrs := exampleConfig\<lparr>launch_configuration := []\<rparr>\<rparr>)
     = Inl noLaunchSourceError
   \<and> (\<exists>d1. resourceAwsAutoscalingGroupCreate exampleHelpers 3
          (exampleData\<lparr>attrs := exampleConfig\<lparr>launch_configuration := []\<rparr>\<rparr>,
           \<lparr>script = [Succeeded], trace = []\<rparr>)
        = Some (Some noLaunchSourceError, d1, \<lparr>script = [Succeeded], trace = []\<rparr>))
   \<and> (\<exists>co. createOpts exampleHelpers exampleData = Inr co
        \<and> CreateAutoScalingGroupInput.LaunchConfigurationName co = Some ''lc-1''
        \<and> CreateAutoScalingGroupInput.LaunchTemplate co = None
        \<and> CreateAutoScalingGroupInput.MixedInstancesPolicy co = None)"
proof -
  note none = create_requires_launch_source[
      of "exampleData\<lparr>attrs := exampleConfig\<lparr>launch_configuration := []\<rparr>\<rparr>"
         exampleHelpers 3 "\<lparr>script = [Succeeded], trace = []\<rparr>" None "TimeoutError"]
  note one = create_requires_launch_source[
      of exampleData exampleHelpers 3 "\<lparr>script = [Succeeded], trace = []\<rparr>" None
         "TimeoutError"]
  from none have a: "createOpts exampleHelpers
       (exampleData\<lparr>attrs := exampleConfig\<lparr>launch_configuration := []\<rparr>\<rparr>)
     = Inl noLaunchSourceError
   \<and> (\<exists>d1. resourceAwsAutoscalingGroupCreate exampleHelpers 3
          (exampleData\<lparr>attrs := exampleConfig\<lparr>launch_configuration := []\<rparr>\<rparr>,
           \<lparr>script = [Succeeded], trace = []\<rparr>)
        = Some (Some noLaunchSourceError, d1, \<lparr>script = [Succeeded], trace = []\<rparr>))"
    by (simp add: exampleData_def exampleConfig_def GetOk_string_def GetOk_list_def
        expandAutoScalingMixedInstancesPolicy_def)
  from one have b: "\<exists>co. createOpts exampleHelpers exampleData = Inr co
        \<and> CreateAutoScalingGroupInput.LaunchConfigurationName co = Some ''lc-1''
        \<and> CreateAutoScalingGroupInput.LaunchTemplate co = None
        \<and> CreateAutoScalingGroupInput.MixedInstancesPolicy co = None"
    by (simp add: exampleData_def exampleConfig_def GetOk_string_def GetOk_list_def
        expandAutoScalingMixedInstancesPolicy_def)
  from a b show ?thesis by simp
qed

text \<open>
  The claim as stated has the create fail when more than one launch source is set. With
  a launch configuration and a mixed-instances policy both set, the request is built
  with both, and the create call is made.
\<close>

theorem create_requires_launch_source_counterexample:
  "\<not> isl (createOpts exampleHelpers
       (exampleData\<lparr>attrs := exampleConfig
          \<lparr>mixed_instances_policy := [Some exampleMixedInstancesPolicy]\<rparr>\<rparr>))
   \<and> CreateAutoScalingGroupInput.LaunchConfigurationName
       (projr (createOpts exampleHelpers
       (exampleData\<lparr>attrs := exampleConfig
          \<lparr>mixed_instances_policy := [Some exampleMixedInstancesPolicy]\<rparr>\<rparr>)))
     = Some ''lc-1''
   \<and> CreateAutoScalingGroupInput.MixedInstancesPolicy
       (projr (createOpts exampleHelpers
       (exampleData\<lparr>attrs := exampleConfig
          \<lparr>mixed_instances_policy := [Some exampleMixedInstancesPolicy]\<rparr>\<rparr>)))
     = Some \<lparr>InstancesDistribution = None,
             LaunchTemplate =
               Some \<lparr>LaunchTemplateSpecification =
                       \<lparr>LaunchTemplateId = Some ''lt-1'', LaunchTemplateName = None,
                        Version = Some ''$Default''\<rparr>,
                     Overrides = []\<rparr>\<rparr>
   \<and> map fst (trace (snd (snd (the (resourceAwsAutoscalingGroupCreate exampleHelpers 3
         (exampleData\<lparr>attrs := exampleConfig
            \<lparr>mixed_instances_policy := [Some exampleMixedInstancesPolicy]\<rparr>\<rparr>,
          \<lparr>script = [Failed (AWSError ''ValidationError'' ''more than one launch source'')],
           trace = []\<rparr>))))))
     = [CreateAutoScalingGroup (projr (createOpts exampleHelpers
       (exampleData\<lparr>attrs := exampleConfig
          \<lparr>mixed_instances_policy := [Some exampleMixedInstancesPolicy]\<rparr>\<rparr>)))]"
  by (simp add: createOpts_def createOptsWith_def resourceAwsAutoscalingGroupCreate_def
      createGroup_def createAttempt_def api_def Let_def exampleData_def exampleConfig_def
      exampleHelpers_def exampleMixedInstancesPolicy_def
      expandAutoScalingMixedInstancesPolicy_def expandAutoScalingLaunchTemplate_def
      expandAutoScalingLaunchTemplateSpecification_def expandAutoScalingInstancesDistribution_def
      expandAutoScalingLaunchTemplateOverrides_def nonEmpty_def
      GetOk_string_def GetOk_list_def GetOk_int_def twoPhases_def createName_def
      isAWSErr_def isResourceTimeoutError_def numeral_3_eq_3)


subsection \<open>Create: two phases\<close>














subsection \<open>Update: the refresh marker and the tags\<close>

lemma propagatedTags_distinct_aux:
  "distinct (map fst m) \<Longrightarrow>
   distinct (map fst (foldl (\<lambda>m tag. if aws_BoolValue (PropagateAtLaunch tag)
                     then AList.update (aws_StringValue (Key tag)) (aws_StringValue (Value tag)) m
                     else m) m ts))"
  by (induction ts arbitrary: m) (simp_all add: distinct_update)

lemma propagatedTags_distinct: "distinct (map fst (propagatedTags ts))"
  unfolding propagatedTags_def by (rule propagatedTags_distinct_aux) simp

lemma DeepEqual_propagated:
  "reflect_DeepEqual (propagatedTags ts) (propagatedTags ts')
   \<longleftrightarrow> map_of (propagatedTags ts) = map_of (propagatedTags ts')"
  unfolding reflect_DeepEqual_def
  using map_of_inject_set[OF propagatedTags_distinct propagatedTags_distinct] by blast

lemma propagatedTags_filter_aux:
  "foldl (\<lambda>m tag. if aws_BoolValue (PropagateAtLaunch tag)
                     then AList.update (aws_StringValue (Key tag)) (aws_StringValue (Value tag)) m
                     else m) m ts
   = foldl (\<lambda>m tag. if aws_BoolValue (PropagateAtLaunch tag)
                     then AList.update (aws_StringValue (Key tag)) (aws_StringValue (Value tag)) m
                     else m) m (filter (\<lambda>tag. aws_BoolValue (PropagateAtLaunch tag)) ts)"
  by (induction ts arbitrary: m) simp_all

lemma propagatedTags_filter:
  "propagatedTags ts = propagatedTags (filter (\<lambda>tag. aws_BoolValue (PropagateAtLaunch tag)) ts)"
  unfolding propagatedTags_def by (rule propagatedTags_filter_aux)

text \<open>
  C9. In an update with a tag change in which no other attribute asks for a refresh
  (launch configuration, launch template, mixed-instances policy, subnets, zones and
  placement group are unchanged), the marker \<open>shouldRefreshInstances\<close> is set if and only
  if the key-to-value maps of the tags with the propagate-at-launch flag differ between
  the old and the new merged tags. It is not set when the two collections have the same
  propagated tags, whatever their other tags are. An update that gets past its update
  call has written a new refresh token exactly in the first case; and when the tag call
  and the update call succeed and no attachment changes, the update makes these two
  calls and returns without error, with a new refresh token in the first case and the
  resource data unchanged in the second.
\<close>

theorem refresh_marker_follows_propagated_tags:
  assumes tagged: "HasChange tag d \<or> HasChange tags d"
    and other: "\<not> HasChange launch_configuration d" "\<not> HasChange Config.launch_template d"
      "\<not> HasChange mixed_instances_policy d" "\<not> HasChange vpc_zone_identifier d"
      "\<not> HasChange availability_zones d" "\<not> HasChange placement_group d"
  shows "(shouldRefreshInstances h d
          \<longleftrightarrow> map_of (propagatedTags (oldTags h d)) \<noteq> map_of (propagatedTags (newTags h d)))
       \<and> (filter (\<lambda>tag. aws_BoolValue (PropagateAtLaunch tag)) (oldTags h d)
            = filter (\<lambda>tag. aws_BoolValue (PropagateAtLaunch tag)) (newTags h d)
          \<longrightarrow> \<not> shouldRefreshInstances h d)
       \<and> (\<forall>w d' w'. resourceAwsAutoscalingGroupUpdate h (d, w) = Some (None, d', w')
          \<longrightarrow> instance_refresh_token (attrs d')
              = (if map_of (propagatedTags (oldTags h d)) \<noteq> map_of (propagatedTags (newTags h d))
                 then PrefixedUniqueId h [] else instance_refresh_token (attrs d)))
       \<and> (\<forall>w rest. script w = Succeeded # Succeeded # rest
              \<and> \<not> HasChange load_balancers d \<and> \<not> HasChange target_group_arns d
          \<longrightarrow> resourceAwsAutoscalingGroupUpdate h (d, w)
              = Some (None,
                  (if map_of (propagatedTags (oldTags h d)) \<noteq> map_of (propagatedTags (newTags h d))
                   then d\<lparr>attrs := (attrs d)\<lparr>instance_refresh_token := PrefixedUniqueId h []\<rparr>\<rparr>
                   else d),
                  \<lparr>script = rest,
                   trace = trace w
                     @ [(AutoscalingUpdateTags (Id d) (oldTags h d) (newTags h d), Succeeded),
                        (UpdateAutoScalingGroup (updateOpts h d), Succeeded)]\<rparr>))"
proof -
  from tagged other have flag: "shouldRefreshInstances h d
      \<longleftrightarrow> map_of (propagatedTags (oldTags h d)) \<noteq> map_of (propagatedTags (newTags h d))"
    by (simp add: shouldRefreshInstances_def DeepEqual_propagated)
  have same: "filter (\<lambda>tag. aws_BoolValue (PropagateAtLaunch tag)) (oldTags h d)
            = filter (\<lambda>tag. aws_BoolValue (PropagateAtLaunch tag)) (newTags h d)
          \<longrightarrow> \<not> shouldRefreshInstances h d"
  proof
    assume "filter (\<lambda>tag. aws_BoolValue (PropagateAtLaunch tag)) (oldTags h d)
            = filter (\<lambda>tag. aws_BoolValue (PropagateAtLaunch tag)) (newTags h d)"
    then have "propagatedTags (oldTags h d) = propagatedTags (newTags h d)"
      using propagatedTags_filter[of "oldTags h d"] propagatedTags_filter[of "newTags h d"]
      by simp
    with flag show "\<not> shouldRefreshInstances h d" by simp
  qed
  have token: "\<forall>w d' w'. resourceAwsAutoscalingGroupUpdate h (d, w) = Some (None, d', w')
          \<longrightarrow> instance_refresh_token (attrs d')
              = (if shouldRefreshInstances h d
                 then PrefixedUniqueId h [] else instance_refresh_token (attrs d))"
    by (auto simp: resourceAwsAutoscalingGroupUpdate_def Let_def
        split: option.splits response.splits if_splits)
  have run: "\<forall>w rest. script w = Succeeded # Succeeded # rest
              \<and> \<not> HasChange load_balancers d \<and> \<not> HasChange target_group_arns d
          \<longrightarrow> resourceAwsAutoscalingGroupUpdate h (d, w)
              = Some (None,
                  (if shouldRefreshInstances h d
                   then d\<lparr>attrs := (attrs d)\<lparr>instance_refresh_token := PrefixedUniqueId h []\<rparr>\<rparr>
                   else d),
                  \<lparr>script = rest,
                   trace = trace w
                     @ [(AutoscalingUpdateTags (Id d) (oldTags h d) (newTags h d), Succeeded),
                        (UpdateAutoScalingGroup (updateOpts h d), Succeeded)]\<rparr>)"
  proof (intro allI impI)
    fix w :: world and rest
    assume a: "script w = Succeeded # Succeeded # rest
              \<and> \<not> HasChange load_balancers d \<and> \<not> HasChange target_group_arns d"
    let ?w1 = "\<lparr>script = Succeeded # rest,
       trace = trace w @ [(AutoscalingUpdateTags (Id d) (oldTags h d) (newTags h d), Succeeded)]\<rparr>"
    from a tagged have t: "updateTags h d w = Some (None, ?w1)"
      by (simp add: updateTags_def api_eval)
    have u: "api (UpdateAutoScalingGroup (updateOpts h d)) ?w1
        = Some (Succeeded, \<lparr>script = rest,
                   trace = trace w
                     @ [(AutoscalingUpdateTags (Id d) (oldTags h d) (newTags h d), Succeeded),
                        (UpdateAutoScalingGroup (updateOpts h d), Succeeded)]\<rparr>)"
      by (simp add: api_eval)
    from a t u show "resourceAwsAutoscalingGroupUpdate h (d, w)
              = Some (None,
                  (if shouldRefreshInstances h d
                   then d\<lparr>attrs := (attrs d)\<lparr>instance_refresh_token := PrefixedUniqueId h []\<rparr>\<rparr>
                   else d),
                  \<lparr>script = rest,
                   trace = trace w
                     @ [(AutoscalingUpdateTags (Id d) (oldTags h d) (newTags h d), Succeeded),
                        (UpdateAutoScalingGroup (updateOpts h d), Succeeded)]\<rparr>)"
      by (simp add: resourceAwsAutoscalingGroupUpdate_def Let_def)
  qed
  from flag same token run show ?thesis by simp
qed

theorem refresh_marker_follows_propagated_tags_witness:
  "shouldRefreshInstances exampleHelpers
     \<lparr>Id = ''asg'',
      prior = exampleConfig
        \<lparr>tag := [\<lparr>key = ''env'', val = ''dev'', propagate_at_launch = True\<rparr>]\<rparr>,
      attrs = exampleConfig
        \<lparr>tag := [\<lparr>key = ''env'', val = ''prod'', propagate_at_launch = True\<rparr>]\<rparr>\<rparr>
   \<and> \<not> shouldRefreshInstances exampleHelpers
     \<lparr>Id = ''asg'',
      prior = exampleConfig
        \<lparr>tag := [\<lparr>key = ''env'', val = ''dev'', propagate_at_launch = True\<rparr>,
                 \<lparr>key = ''team'', val = ''a'', propagate_at_launch = False\<rparr>]\<rparr>,
      attrs = exampleConfig
        \<lparr>tag := [\<lparr>key = ''env'', val = ''dev'', propagate_at_launch = True\<rparr>,
                 \<lparr>key = ''team'', val = ''b'', propagate_at_launch = False\<rparr>]\<rparr>\<rparr>
   \<and> resourceAwsAutoscalingGroupUpdate exampleHelpers
         (\<lparr>Id = ''asg'',
           prior = exampleConfig
             \<lparr>tag := [\<lparr>key = ''env'', val = ''dev'', propagate_at_launch = True\<rparr>]\<rparr>,
           attrs = exampleConfig
             \<lparr>tag := [\<lparr>key = ''env'', val = ''prod'', propagate_at_launch = True\<rparr>]\<rparr>\<rparr>,
          \<lparr>script = [Succeeded, Succeeded], trace = []\<rparr>)
     = Some (None,
         \<lparr>Id = ''asg'',
           prior = exampleConfig
             \<lparr>tag := [\<lparr>key = ''env'', val = ''dev'', propagate_at_launch = True\<rparr>]\<rparr>,
           attrs = exampleConfig
             \<lparr>tag := [\<lparr>key = ''env'', val = ''prod'', propagate_at_launch = True\<rparr>],
              instance_refresh_token := ''0001''\<rparr>\<rparr>,
         \<lparr>script = [],
          trace =
            [(AutoscalingUpdateTags ''asg''
                [exampleTag ''asg'' \<lparr>key = ''env'', val = ''dev'', propagate_at_launch = True\<rparr>]
                [exampleTag ''asg'' \<lparr>key = ''env'', val = ''prod'', propagate_at_launch = True\<rparr>],
              Succeeded),
             (UpdateAutoScalingGroup
                (UpdateAutoScalingGroupInput_zero
                   \<lparr>UpdateAutoScalingGroupInput.AutoScalingGroupName := Some ''asg'',
                    NewInstancesProtectedFromScaleIn := Some False\<rparr>),
              Succeeded)]\<rparr>)
   \<and> resourceAwsAutoscalingGroupUpdate exampleHelpers
         (\<lparr>Id = ''asg'',
           prior = exampleConfig
             \<lparr>tag := [\<lparr>key = ''env'', val = ''dev'', propagate_at_launch = True\<rparr>,
                      \<lparr>key = ''team'', val = ''a'', propagate_at_launch = False\<rparr>]\<rparr>,
           attrs = exampleConfig
             \<lparr>tag := [\<lparr>key = ''env'', val = ''dev'', propagate_at_launch = True\<rparr>,
                      \<lparr>key = ''team'', val = ''b'', propagate_at_launch = False\<rparr>]\<rparr>\<rparr>,
          \<lparr>script = [Succeeded, Succeeded], trace = []\<rparr>)
     = Some (None,
         \<lparr>Id = ''asg'',
           prior = exampleConfig
             \<lparr>tag := [\<lparr>key = ''env'', val = ''dev'', propagate_at_launch = True\<rparr>,
                      \<lparr>key = ''team'', val = ''a'', propagate_at_launch = False\<rparr>]\<rparr>,
           attrs = exampleConfig
             \<lparr>tag := [\<lparr>key = ''env'', val = ''dev'', propagate_at_launch = True\<rparr>,
                      \<lparr>key = ''team'', val = ''b'', propagate_at_launch = False\<rparr>]\<rparr>\<rparr>,
         \<lparr>script = [],
          trace =
            [(AutoscalingUpdateTags ''asg''
                [exampleTag ''asg'' \<lparr>key = ''env'', val = ''dev'', propagate_at_launch = True\<rparr>,
                 exampleTag ''asg'' \<lparr>key = ''team'', val = ''a'', propagate_at_launch = False\<rparr>]
                [exampleTag ''asg'' \<lparr>key = ''env'', val = ''dev'', propagate_at_launch = True\<rparr>,
                 exampleTag ''asg'' \<lparr>key = ''team'', val = ''b'', propagate_at_launch = False\<rparr>],
              Succeeded),
             (UpdateAutoScalingGroup
                (UpdateAutoScalingGroupInput_zero
                   \<lparr>UpdateAutoScalingGroupInput.AutoScalingGroupName := Some ''asg'',
                    NewInstancesProtectedFromScaleIn := Some False\<rparr>),
              Succeeded)]\<rparr>)"
proof -
  let ?d1 = "\<lparr>Id = ''asg'',
      prior = exampleConfig
        \<lparr>tag := [\<lparr>key = ''env'', val = ''dev'', propagate_at_launch = True\<rparr>]\<rparr>,
      attrs = exampleConfig
        \<lparr>tag := [\<lparr>key = ''env'', val = ''prod'', propagate_at_launch = True\<rparr>]\<rparr>\<rparr>"
  let ?d2 = "\<lparr>Id = ''asg'',
      prior = exampleConfig
        \<lparr>tag := [\<lparr>key = ''env'', val = ''dev'', propagate_at_launch = True\<rparr>,
                 \<lparr>key = ''team'', val = ''a'', propagate_at_launch = False\<rparr>]\<rparr>,
      attrs = exampleConfig
        \<lparr>tag := [\<lparr>key = ''env'', val = ''dev'', propagate_at_launch = True\<rparr>,
                 \<lparr>key = ''team'', val = ''b'', propagate_at_launch = False\<rparr>]\<rparr>\<rparr>"
  let ?w = "\<lparr>script = [Succeeded, Succeeded], trace = []\<rparr>"
  have t1: "HasChange tag ?d1 \<or> HasChange tags ?d1"
    and t2: "HasChange tag ?d2 \<or> HasChange tags ?d2"
    by (simp_all add: HasChange_def)
  have o1: "\<not> HasChange launch_configuration ?d1" "\<not> HasChange Config.launch_template ?d1"
      "\<not> HasChange mixed_instances_policy ?d1" "\<not> HasChange vpc_zone_identifier ?d1"
      "\<not> HasChange availability_zones ?d1" "\<not> HasChange placement_group ?d1"
    and o2: "\<not> HasChange launch_configuration ?d2" "\<not> HasChange Config.launch_template ?d2"
      "\<not> HasChange mixed_instances_policy ?d2" "\<not> HasChange vpc_zone_identifier ?d2"
      "\<not> HasChange availability_zones ?d2" "\<not> HasChange placement_group ?d2"
    by (simp_all add: HasChange_def)
  have l1: "\<not> HasChange load_balancers ?d1" "\<not> HasChange target_group_arns ?d1"
    and l2: "\<not> HasChange load_balancers ?d2" "\<not> HasChange target_group_arns ?d2"
    by (simp_all add: HasChange_def)
  have sc: "script ?w = Succeeded # Succeeded # []" by simp
  have m1: "map_of (propagatedTags (oldTags exampleHelpers ?d1)) ''env'' = Some ''dev''"
      "map_of (propagatedTags (newTags exampleHelpers ?d1)) ''env'' = Some ''prod''"
    by (simp_all add: propagatedTags_def oldTags_def newTags_def exampleHelpers_def
        exampleTag_def aws_BoolValue_def aws_StringValue_def)
  then have ne: "map_of (propagatedTags (oldTags exampleHelpers ?d1))
      \<noteq> map_of (propagatedTags (newTags exampleHelpers ?d1))"
    by auto
  have same: "filter (\<lambda>tag. aws_BoolValue (PropagateAtLaunch tag)) (oldTags exampleHelpers ?d2)
      = filter (\<lambda>tag. aws_BoolValue (PropagateAtLaunch tag)) (newTags exampleHelpers ?d2)"
    by (simp add: oldTags_def newTags_def exampleHelpers_def exampleTag_def aws_BoolValue_def)
  note th1 = refresh_marker_follows_propagated_tags[OF t1 o1, of exampleHelpers]
  note th2 = refresh_marker_follows_propagated_tags[OF t2 o2, of exampleHelpers]
  from th1 ne have a: "shouldRefreshInstances exampleHelpers ?d1" by blast
  from th2 same have b: "\<not> shouldRefreshInstances exampleHelpers ?d2" by blast
  from th2 b have eq: "map_of (propagatedTags (oldTags exampleHelpers ?d2))
      = map_of (propagatedTags (newTags exampleHelpers ?d2))" by blast
  from th1 have "script ?w = Succeeded # Succeeded # []
              \<and> \<not> HasChange load_balancers ?d1 \<and> \<not> HasChange target_group_arns ?d1
          \<longrightarrow> resourceAwsAutoscalingGroupUpdate exampleHelpers (?d1, ?w)
              = Some (None,
                  (if map_of (propagatedTags (oldTags exampleHelpers ?d1))
                        \<noteq> map_of (propagatedTags (newTags exampleHelpers ?d1))
                   then ?d1\<lparr>attrs := (attrs ?d1)
                          \<lparr>instance_refresh_token := PrefixedUniqueId exampleHelpers []\<rparr>\<rparr>
                   else ?d1),
                  \<lparr>script = [],
                   trace = trace ?w
                     @ [(AutoscalingUpdateTags (Id ?d1) (oldTags exampleHelpers ?d1)
                           (newTags exampleHelpers ?d1), Succeeded),
                        (UpdateAutoScalingGroup (updateOpts exampleHelpers ?d1), Succeeded)]\<rparr>)"
    by blast
  with sc l1 ne have "resourceAwsAutoscalingGroupUpdate exampleHelpers (?d1, ?w)
     = Some (None,
         ?d1\<lparr>attrs := (attrs ?d1)\<lparr>instance_refresh_token := ''0001''\<rparr>\<rparr>,
         \<lparr>script = [],
          trace = [(AutoscalingUpdateTags (Id ?d1) (oldTags exampleHelpers ?d1)
                           (newTags exampleHelpers ?d1), Succeeded),
                   (UpdateAutoScalingGroup (updateOpts exampleHelpers ?d1), Succeeded)]\<rparr>)"
    by (simp add: exampleHelpers_def)
  moreover have "oldTags exampleHelpers ?d1
      = [exampleTag ''asg'' \<lparr>key = ''env'', val = ''dev'', propagate_at_launch = True\<rparr>]"
    "newTags exampleHelpers ?d1
      = [exampleTag ''asg'' \<lparr>key = ''env'', val = ''prod'', propagate_at_launch = True\<rparr>]"
    by (simp_all add: oldTags_def newTags_def exampleHelpers_def)
  moreover have "updateOpts exampleHelpers ?d1
      = UpdateAutoScalingGroupInput_zero
          \<lparr>UpdateAutoScalingGroupInput.AutoScalingGroupName := Some ''asg'',
           NewInstancesProtectedFromScaleIn := Some False\<rparr>"
    by (simp add: updateOpts_def HasChange_def UpdateAutoScalingGroupInput_zero_def
        exampleConfig_def Let_def)
  ultimately have c: "resourceAwsAutoscalingGroupUpdate exampleHelpers (?d1, ?w)
     = Some (None,
         \<lparr>Id = ''asg'',
           prior = exampleConfig
             \<lparr>tag := [\<lparr>key = ''env'', val = ''dev'', propagate_at_launch = True\<rparr>]\<rparr>,
           attrs = exampleConfig
             \<lparr>tag := [\<lparr>key = ''env'', val = ''prod'', propagate_at_launch = True\<rparr>],
              instance_refresh_token := ''0001''\<rparr>\<rparr>,
         \<lparr>script = [],
          trace =
            [(AutoscalingUpdateTags ''asg''
                [exampleTag ''asg'' \<lparr>key = ''env'', val = ''dev'', propagate_at_launch = True\<rparr>]
                [exampleTag ''asg'' \<lparr>key = ''env'', val = ''prod'', propagate_at_launch = True\<rparr>],
              Succeeded),
             (UpdateAutoScalingGroup
                (UpdateAutoScalingGroupInput_zero
                   \<lparr>UpdateAutoScalingGroupInput.AutoScalingGroupName := Some ''asg'',
                    NewInstancesProtectedFromScaleIn := Some False\<rparr>),
              Succeeded)]\<rparr>)"
    by simp
  from th2 have "script ?w = Succeeded # Succeeded # []
              \<and> \<not> HasChange load_balancers ?d2 \<and> \<not> HasChange target_group_arns ?d2
          \<longrightarrow> resourceAwsAutoscalingGroupUpdate exampleHelpers (?d2, ?w)
              = Some (None,
                  (if map_of (propagatedTags (oldTags exampleHelpers ?d2))
                        \<noteq> map_of (propagatedTags (newTags exampleHelpers ?d2))
                   then ?d2\<lparr>attrs := (attrs ?d2)
                          \<lparr>instance_refresh_token := PrefixedUniqueId exampleHelpers []\<rparr>\<rparr>
                   else ?d2),
                  \<lparr>script = [],
                   trace = trace ?w
                     @ [(AutoscalingUpdateTags (Id ?d2) (oldTags exampleHelpers ?d2)
                           (newTags exampleHelpers ?d2), Succeeded),
                        (UpdateAutoScalingGroup (updateOpts exampleHelpers ?d2), Succeeded)]\<rparr>)"
    by blast
  with sc l2 eq have "resourceAwsAutoscalingGroupUpdate exampleHelpers (?d2, ?w)
     = Some (None, ?d2,
         \<lparr>script = [],
          trace = [(AutoscalingUpdateTags (Id ?d2) (oldTags exampleHelpers ?d2)
                           (newTags exampleHelpers ?d2), Succeeded),
                   (UpdateAutoScalingGroup (updateOpts exampleHelpers ?d2), Succeeded)]\<rparr>)"
    by simp
  moreover have "oldTags exampleHelpers ?d2
      = [exampleTag ''asg'' \<lparr>key = ''env'', val = ''dev'', propagate_at_launch = True\<rparr>,
         exampleTag ''asg'' \<lparr>key = ''team'', val = ''a'', propagate_at_launch = False\<rparr>]"
    "newTags exampleHelpers ?d2
      = [exampleTag ''asg'' \<lparr>key = ''env'', val = ''dev'', propagate_at_launch = True\<rparr>,
         exampleTag ''asg'' \<lparr>key = ''team'', val = ''b'', propagate_at_launch = False\<rparr>]"
    by (simp_all add: oldTags_def newTags_def exampleHelpers_def)
  moreover have "updateOpts exampleHelpers ?d2
      = UpdateAutoScalingGroupInput_zero
          \<lparr>UpdateAutoScalingGroupInput.AutoScalingGroupName := Some ''asg'',
           NewInstancesProtectedFromScaleIn := Some False\<rparr>"
    by (simp add: updateOpts_def HasChange_def UpdateAutoScalingGroupInput_zero_def
        exampleConfig_def Let_def)
  ultimately have e: "resourceAwsAutoscalingGroupUpdate exampleHelpers (?d2, ?w)
     = Some (None, ?d2,
         \<lparr>script = [],
          trace =
            [(AutoscalingUpdateTags ''asg''
                [exampleTag ''asg'' \<lparr>key = ''env'', val = ''dev'', propagate_at_launch = True\<rparr>,
                 exampleTag ''asg'' \<lparr>key = ''team'', val = ''a'', propagate_at_launch = False\<rparr>]
                [exampleTag ''asg'' \<lparr>key = ''env'', val = ''dev'', propagate_at_launch = True\<rparr>,
                 exampleTag ''asg'' \<lparr>key = ''team'', val = ''b'', propagate_at_launch = False\<rparr>],
              Succeeded),
             (UpdateAutoScalingGroup
                (UpdateAutoScalingGroupInput_zero
                   \<lparr>UpdateAutoScalingGroupInput.AutoScalingGroupName := Some ''asg'',
                    NewInstancesProtectedFromScaleIn := Some False\<rparr>),
              Succeeded)]\<rparr>)"
    by simp
  from a b c e show ?thesis by (intro conjI)
qed

end
